theory Spec2Isabelle
  imports Main "HOL-Library.Word"
begin

section \<open>Errors\<close>

text \<open>
  Every error value the modelled functions return. An error built with
  \<^verbatim>\<open>fmt.Errorf("%w: %s", sentinel, detail)\<close> is the sentinel's constructor
  applied to the detail string; \<^verbatim>\<open>&rtcerr.InvalidAccessError{Err: err}\<close> wraps its
  cause. Errors that come out of the imported packages (stun, ice) are kept
  as \<open>ExternalError\<close> with their text.
\<close>

datatype error =
    ErrICECandidateTypeUnknown string
  | ErrICEInvalidConvertCandidateType string
  | ErrNoTurnCredentials
  | ErrTurnCredentials
  | InvalidAccessError error
  | ExternalError string

section \<open>ICECandidateType (icecandidatetype.go)\<close>

text \<open>
  \<^verbatim>\<open>type ICECandidateType int\<close> with the constants numbered by \<^verbatim>\<open>iota\<close>.
  The type is an integer type, so values outside the five constants exist.
\<close>

type_synonym ICECandidateType = int

definition ICECandidateTypeUnknown :: ICECandidateType where
  "ICECandidateTypeUnknown = 0"

definition ICECandidateTypeHost :: ICECandidateType where
  "ICECandidateTypeHost = 1"

definition ICECandidateTypeSrflx :: ICECandidateType where
  "ICECandidateTypeSrflx = 2"

definition ICECandidateTypePrflx :: ICECandidateType where
  "ICECandidateTypePrflx = 3"

definition ICECandidateTypeRelay :: ICECandidateType where
  "ICECandidateTypeRelay = 4"

definition iceCandidateTypeHostStr :: string where
  "iceCandidateTypeHostStr = ''host''"

definition iceCandidateTypeSrflxStr :: string where
  "iceCandidateTypeSrflxStr = ''srflx''"

definition iceCandidateTypePrflxStr :: string where
  "iceCandidateTypePrflxStr = ''prflx''"

definition iceCandidateTypeRelayStr :: string where
  "iceCandidateTypeRelayStr = ''relay''"

text \<open>
  Modelled from the spec: the text of \<^verbatim>\<open>ErrUnknownType\<close>, declared with the
  package's other errors, outside the files modelled here. The results below
  use of it only that it is none of the names "udp" and "tcp".
\<close>

definition ErrUnknownType_Error :: string where
  "ErrUnknownType_Error = ''unknown''"

text \<open>A Go result pair \<^verbatim>\<open>(value, error)\<close>; \<open>None\<close> is the \<^verbatim>\<open>nil\<close> error.\<close>

definition NewICECandidateType :: "string \<Rightarrow> ICECandidateType \<times> error option" where
  "NewICECandidateType raw =
     (if raw = iceCandidateTypeHostStr then (ICECandidateTypeHost, None)
      else if raw = iceCandidateTypeSrflxStr then (ICECandidateTypeSrflx, None)
      else if raw = iceCandidateTypePrflxStr then (ICECandidateTypePrflx, None)
      else if raw = iceCandidateTypeRelayStr then (ICECandidateTypeRelay, None)
      else (ICECandidateTypeUnknown, Some (ErrICECandidateTypeUnknown raw)))"

definition ICECandidateType_String :: "ICECandidateType \<Rightarrow> string" where
  "ICECandidateType_String t =
     (if t = ICECandidateTypeHost then iceCandidateTypeHostStr
      else if t = ICECandidateTypeSrflx then iceCandidateTypeSrflxStr
      else if t = ICECandidateTypePrflx then iceCandidateTypePrflxStr
      else if t = ICECandidateTypeRelay then iceCandidateTypeRelayStr
      else ErrUnknownType_Error)"

text \<open>
  \<^verbatim>\<open>ice.CandidateType\<close> belongs to the imported package
  \<^verbatim>\<open>github.com/pion/ice/v4\<close>: a byte-sized enumeration whose constants are
  numbered by \<^verbatim>\<open>iota\<close> starting with \<^verbatim>\<open>CandidateTypeUnspecified\<close>. The
  conversion \<^verbatim>\<open>ICECandidateType(t)\<close> in \<^verbatim>\<open>convertTypeFromICE\<close> is the
  numeric conversion of that byte.
\<close>

type_synonym ice_CandidateType = "8 word"

definition CandidateTypeUnspecified :: ice_CandidateType where
  "CandidateTypeUnspecified = 0"

definition CandidateTypeHost :: ice_CandidateType where
  "CandidateTypeHost = 1"

definition CandidateTypeServerReflexive :: ice_CandidateType where
  "CandidateTypeServerReflexive = 2"

definition CandidateTypePeerReflexive :: ice_CandidateType where
  "CandidateTypePeerReflexive = 3"

definition CandidateTypeRelay :: ice_CandidateType where
  "CandidateTypeRelay = 4"

text \<open>\<^verbatim>\<open>ice.CandidateType.String()\<close>; its default branch prints an unknown marker.\<close>

definition ice_CandidateType_String :: "ice_CandidateType \<Rightarrow> string" where
  "ice_CandidateType_String t =
     (if t = CandidateTypeHost then ''host''
      else if t = CandidateTypeServerReflexive then ''srflx''
      else if t = CandidateTypePeerReflexive then ''prflx''
      else if t = CandidateTypeRelay then ''relay''
      else ''Unknown candidate type'')"

definition getCandidateType :: "ice_CandidateType \<Rightarrow> ICECandidateType \<times> error option" where
  "getCandidateType candidateType =
     (if candidateType = CandidateTypeHost then (ICECandidateTypeHost, None)
      else if candidateType = CandidateTypeServerReflexive then (ICECandidateTypeSrflx, None)
      else if candidateType = CandidateTypePeerReflexive then (ICECandidateTypePrflx, None)
      else if candidateType = CandidateTypeRelay then (ICECandidateTypeRelay, None)
      else (ICECandidateTypeUnknown,
            Some (ErrICEInvalidConvertCandidateType (ice_CandidateType_String candidateType))))"

definition MarshalText :: "ICECandidateType \<Rightarrow> string \<times> error option" where
  "MarshalText t = (ICECandidateType_String t, None)"

text \<open>
  \<^verbatim>\<open>UnmarshalText\<close> has a pointer receiver: it overwrites \<^verbatim>\<open>*t\<close> with the
  value \<^verbatim>\<open>NewICECandidateType\<close> returns (also when that is an error) and
  returns the error. The model returns the new content of \<^verbatim>\<open>*t\<close> with it.
\<close>

definition UnmarshalText :: "ICECandidateType \<Rightarrow> string \<Rightarrow> ICECandidateType \<times> error option" where
  "UnmarshalText t b = NewICECandidateType b"

section \<open>ICECandidate and its conversions\<close>

definition convertTypeFromICE :: "ice_CandidateType \<Rightarrow> ICECandidateType \<times> error option" where
  "convertTypeFromICE t =
     (if t = CandidateTypeHost then (ICECandidateTypeHost, None)
      else if t = CandidateTypeServerReflexive then (ICECandidateTypeSrflx, None)
      else if t = CandidateTypePeerReflexive then (ICECandidateTypePrflx, None)
      else if t = CandidateTypeRelay then (ICECandidateTypeRelay, None)
      else (uint t, Some (ErrICECandidateTypeUnknown (ice_CandidateType_String t))))"

text \<open>
  Modelled from the spec: \<^verbatim>\<open>ICEProtocol\<close> (protocol \<open>\<in> {udp, tcp}\<close>) is an
  integer enumeration declared outside the files modelled here. Its two conversions
  \<^verbatim>\<open>NewICEProtocol\<close> and \<^verbatim>\<open>ICEProtocol.String\<close> are taken as parameters below.
\<close>

type_synonym ICEProtocol = int

record ICECandidate =
  statsID :: string
  Foundation :: string
  Priority :: "32 word"
  Address :: string
  Protocol :: ICEProtocol
  Port :: "16 word"
  Typ :: ICECandidateType
  Component :: "16 word"
  RelatedAddress :: string
  RelatedPort :: "16 word"
  TCPType :: string
  SDPMid :: string
  SDPMLineIndex :: "16 word"

text \<open>
  \<^verbatim>\<open>ICECandidateInit\<close>, with the fields the literal in \<^verbatim>\<open>ToJSON\<close> sets; the two
  pointer fields are \<open>None\<close> for \<^verbatim>\<open>nil\<close>.
\<close>

record ICECandidateInit =
  Candidate :: string
  init_SDPMid :: "string option"
  init_SDPMLineIndex :: "16 word option"

subsection \<open>The interface of the imported package ice\<close>

text \<open>
  \<^verbatim>\<open>ice.Candidate\<close> is an interface. A value of it is modelled by what its
  methods return: \<open>ice_NetworkShort\<close> is \<^verbatim>\<open>NetworkType().NetworkShort()\<close>,
  \<open>ice_TCPType_String\<close> is \<^verbatim>\<open>TCPType().String()\<close>, and \<open>ice_RelatedAddress\<close> is
  \<open>None\<close> when \<^verbatim>\<open>RelatedAddress()\<close> returns \<^verbatim>\<open>nil\<close>.
\<close>

record CandidateRelatedAddress =
  rel_Address :: string
  rel_Port :: int

record ice_Candidate =
  ice_ID :: string
  ice_Foundation :: string
  ice_Priority :: "32 word"
  ice_Address :: string
  ice_NetworkShort :: string
  ice_Port :: int
  ice_Component :: "16 word"
  ice_Type :: ice_CandidateType
  ice_TCPType_String :: string
  ice_RelatedAddress :: "CandidateRelatedAddress option"
  ice_Marshal :: string

type_synonym ice_TCPType = int

record CandidateHostConfig =
  host_CandidateID :: string
  host_Network :: string
  host_Address :: string
  host_Port :: int
  host_Component :: "16 word"
  host_TCPType :: ice_TCPType
  host_Foundation :: string
  host_Priority :: "32 word"

record CandidateServerReflexiveConfig =
  srflx_CandidateID :: string
  srflx_Network :: string
  srflx_Address :: string
  srflx_Port :: int
  srflx_Component :: "16 word"
  srflx_Foundation :: string
  srflx_Priority :: "32 word"
  srflx_RelAddr :: string
  srflx_RelPort :: int

record CandidatePeerReflexiveConfig =
  prflx_CandidateID :: string
  prflx_Network :: string
  prflx_Address :: string
  prflx_Port :: int
  prflx_Component :: "16 word"
  prflx_Foundation :: string
  prflx_Priority :: "32 word"
  prflx_RelAddr :: string
  prflx_RelPort :: int

record CandidateRelayConfig =
  relay_CandidateID :: string
  relay_Network :: string
  relay_Address :: string
  relay_Port :: int
  relay_Component :: "16 word"
  relay_Foundation :: string
  relay_Priority :: "32 word"
  relay_RelAddr :: string
  relay_RelPort :: int

text \<open>
  The functions the conversions call and that live outside the files
  modelled here: the four candidate constructors and \<^verbatim>\<open>NewTCPType\<close> of package ice
  (a constructor may fail), and the two \<^verbatim>\<open>ICEProtocol\<close> conversions. They are
  passed explicitly.
\<close>

record ice_env =
  NewICEProtocol :: "string \<Rightarrow> ICEProtocol \<times> error option"
  ICEProtocol_String :: "ICEProtocol \<Rightarrow> string"
  NewTCPType :: "string \<Rightarrow> ice_TCPType"
  NewCandidateHost :: "CandidateHostConfig \<Rightarrow> error + ice_Candidate"
  NewCandidateServerReflexive :: "CandidateServerReflexiveConfig \<Rightarrow> error + ice_Candidate"
  NewCandidatePeerReflexive :: "CandidatePeerReflexiveConfig \<Rightarrow> error + ice_Candidate"
  NewCandidateRelay :: "CandidateRelayConfig \<Rightarrow> error + ice_Candidate"

subsection \<open>The conversions\<close>

text \<open>The zero value \<^verbatim>\<open>ICECandidate{}\<close>.\<close>

definition ICECandidate_zero :: ICECandidate where
  "ICECandidate_zero =
     \<lparr>statsID = [], Foundation = [], Priority = 0, Address = [], Protocol = 0,
      Port = 0, Typ = 0, Component = 0, RelatedAddress = [], RelatedPort = 0,
      TCPType = [], SDPMid = [], SDPMLineIndex = 0\<rparr>"

text \<open>
  \<^verbatim>\<open>uint16(candidate.Port())\<close> and \<^verbatim>\<open>uint16(candidate.RelatedAddress().Port)\<close>
  keep the low 16 bits of the \<^verbatim>\<open>int\<close>, which is what \<open>word_of_int\<close> does.
\<close>

definition newICECandidateFromICE ::
    "ice_env \<Rightarrow> ice_Candidate \<Rightarrow> string \<Rightarrow> 16 word \<Rightarrow> ICECandidate \<times> error option" where
  "newICECandidateFromICE env candidate sdpMid sdpMLineIndex =
     (case convertTypeFromICE (ice_Type candidate) of
        (typ, Some err) \<Rightarrow> (ICECandidate_zero, Some err)
      | (typ, None) \<Rightarrow>
         (case NewICEProtocol env (ice_NetworkShort candidate) of
            (protocol, Some err) \<Rightarrow> (ICECandidate_zero, Some err)
          | (protocol, None) \<Rightarrow>
             (let newCandidate =
                    \<lparr>statsID = ice_ID candidate,
                     Foundation = ice_Foundation candidate,
                     Priority = ice_Priority candidate,
                     Address = ice_Address candidate,
                     Protocol = protocol,
                     Port = word_of_int (ice_Port candidate),
                     Typ = typ,
                     Component = ice_Component candidate,
                     RelatedAddress = [],
                     RelatedPort = 0,
                     TCPType = ice_TCPType_String candidate,
                     SDPMid = sdpMid,
                     SDPMLineIndex = sdpMLineIndex\<rparr>
              in (case ice_RelatedAddress candidate of
                    None \<Rightarrow> (newCandidate, None)
                  | Some ra \<Rightarrow>
                      (newCandidate\<lparr>RelatedAddress := rel_Address ra,
                                     RelatedPort := word_of_int (rel_Port ra)\<rparr>, None)))))"

fun newICECandidatesFromICE_loop ::
    "ice_env \<Rightarrow> ice_Candidate list \<Rightarrow> string \<Rightarrow> 16 word \<Rightarrow> ICECandidate list \<Rightarrow>
     error + ICECandidate list" where
  "newICECandidatesFromICE_loop env [] sdpMid sdpMLineIndex candidates = Inr candidates"
| "newICECandidatesFromICE_loop env (i # rest) sdpMid sdpMLineIndex candidates =
     (case newICECandidateFromICE env i sdpMid sdpMLineIndex of
        (c, Some err) \<Rightarrow> Inl err
      | (c, None) \<Rightarrow>
          newICECandidatesFromICE_loop env rest sdpMid sdpMLineIndex (candidates @ [c]))"

definition newICECandidatesFromICE ::
    "ice_env \<Rightarrow> ice_Candidate list \<Rightarrow> string \<Rightarrow> 16 word \<Rightarrow> error + ICECandidate list" where
  "newICECandidatesFromICE env iceCandidates sdpMid sdpMLineIndex =
     newICECandidatesFromICE_loop env iceCandidates sdpMid sdpMLineIndex []"

definition toICE :: "ice_env \<Rightarrow> ICECandidate \<Rightarrow> error + ice_Candidate" where
  "toICE env c =
     (let candidateID = statsID c in
      if Typ c = ICECandidateTypeHost then
        NewCandidateHost env
          \<lparr>host_CandidateID = candidateID,
           host_Network = ICEProtocol_String env (Protocol c),
           host_Address = Address c,
           host_Port = uint (Port c),
           host_Component = Component c,
           host_TCPType = NewTCPType env (TCPType c),
           host_Foundation = Foundation c,
           host_Priority = Priority c\<rparr>
      else if Typ c = ICECandidateTypeSrflx then
        NewCandidateServerReflexive env
          \<lparr>srflx_CandidateID = candidateID,
           srflx_Network = ICEProtocol_String env (Protocol c),
           srflx_Address = Address c,
           srflx_Port = uint (Port c),
           srflx_Component = Component c,
           srflx_Foundation = Foundation c,
           srflx_Priority = Priority c,
           srflx_RelAddr = RelatedAddress c,
           srflx_RelPort = uint (RelatedPort c)\<rparr>
      else if Typ c = ICECandidateTypePrflx then
        NewCandidatePeerReflexive env
          \<lparr>prflx_CandidateID = candidateID,
           prflx_Network = ICEProtocol_String env (Protocol c),
           prflx_Address = Address c,
           prflx_Port = uint (Port c),
           prflx_Component = Component c,
           prflx_Foundation = Foundation c,
           prflx_Priority = Priority c,
           prflx_RelAddr = RelatedAddress c,
           prflx_RelPort = uint (RelatedPort c)\<rparr>
      else if Typ c = ICECandidateTypeRelay then
        NewCandidateRelay env
          \<lparr>relay_CandidateID = candidateID,
           relay_Network = ICEProtocol_String env (Protocol c),
           relay_Address = Address c,
           relay_Port = uint (Port c),
           relay_Component = Component c,
           relay_Foundation = Foundation c,
           relay_Priority = Priority c,
           relay_RelAddr = RelatedAddress c,
           relay_RelPort = uint (RelatedPort c)\<rparr>
      else Inl (ErrICECandidateTypeUnknown (ICECandidateType_String (Typ c))))"

definition ToJSON :: "ice_env \<Rightarrow> ICECandidate \<Rightarrow> ICECandidateInit" where
  "ToJSON env c =
     (let candidateStr =
            (case toICE env c of Inr candidate \<Rightarrow> ice_Marshal candidate | Inl err \<Rightarrow> [])
      in \<lparr>Candidate = ''candidate:'' @ candidateStr,
          init_SDPMid = Some (SDPMid c),
          init_SDPMLineIndex = Some (SDPMLineIndex c)\<rparr>)"

text \<open>The four known kinds, as values and as wire-form strings.\<close>

definition known_type :: "ICECandidateType \<Rightarrow> bool" where
  "known_type t \<longleftrightarrow>
     t = ICECandidateTypeHost \<or> t = ICECandidateTypeSrflx \<or>
     t = ICECandidateTypePrflx \<or> t = ICECandidateTypeRelay"

definition known_type_string :: "string \<Rightarrow> bool" where
  "known_type_string s \<longleftrightarrow> s = ''host'' \<or> s = ''srflx'' \<or> s = ''prflx'' \<or> s = ''relay''"

text \<open>
  Two candidates agree on the fields the candidate-attribute grammar requires:
  foundation, component, transport, priority, address, port and type.
\<close>

definition same_required_fields :: "ICECandidate \<Rightarrow> ICECandidate \<Rightarrow> bool" where
  "same_required_fields c c' \<longleftrightarrow>
     Foundation c' = Foundation c \<and> Component c' = Component c \<and> Protocol c' = Protocol c \<and>
     Priority c' = Priority c \<and> Address c' = Address c \<and> Port c' = Port c \<and> Typ c' = Typ c"

section \<open>ICEServer and its validation\<close>

record OAuthCredential =
  MACKey :: string
  AccessToken :: string

text \<open>
  \<^verbatim>\<open>Credential any\<close>: the dynamic value stored in the interface. The code
  only asks whether it is \<^verbatim>\<open>nil\<close>, a \<^verbatim>\<open>string\<close> or an \<^verbatim>\<open>OAuthCredential\<close>;
  \<open>AnyOther\<close> stands for a value of any other dynamic type (named by the
  type's name). \<^verbatim>\<open>nil\<close> is \<open>None\<close> in the field.
\<close>

datatype any = AnyString string | AnyOAuthCredential OAuthCredential | AnyOther string

text \<open>
  Modelled from the spec: \<^verbatim>\<open>ICECredentialType\<close> (credentialType password or
  oauth) is an integer enumeration declared outside the files modelled here, with
  the password kind as its zero value (the value \<^verbatim>\<open>iceserverUnmarshalFields\<close>
  falls back to). Every other integer is a value of the type too.
\<close>

type_synonym ICECredentialType = int

definition ICECredentialTypePassword :: ICECredentialType where
  "ICECredentialTypePassword = 0"

definition ICECredentialTypeOauth :: ICECredentialType where
  "ICECredentialTypeOauth = 1"

record ICEServer =
  URLs :: "string list"
  Username :: string
  Credential :: "any option"
  CredentialType :: ICECredentialType

text \<open>
  \<^verbatim>\<open>stun.URI\<close> and \<^verbatim>\<open>stun.SchemeType\<close> of the imported package
  \<^verbatim>\<open>github.com/pion/stun/v3\<close>. The parser \<^verbatim>\<open>stun.ParseURI\<close> itself is a
  parameter of \<open>urls\<close> and \<open>validate\<close>.
\<close>

datatype SchemeType =
  SchemeTypeUnknown | SchemeTypeSTUN | SchemeTypeSTUNS | SchemeTypeTURN | SchemeTypeTURNS

datatype ProtoType = ProtoTypeUnknown | ProtoTypeUDP | ProtoTypeTCP

record URI =
  Scheme :: SchemeType
  Host :: string
  uri_Port :: int
  uri_Username :: string
  uri_Password :: string
  Proto :: ProtoType

type_synonym ParseURI = "string \<Rightarrow> error + URI"

text \<open>
  The loop of \<^verbatim>\<open>urls\<close> over \<^verbatim>\<open>s.URLs\<close>; \<open>acc\<close> is the slice built so far.
  \<^verbatim>\<open>s.parseURL(i)\<close> is \<^verbatim>\<open>stun.ParseURI(s.URLs[i])\<close> with \<open>i\<close> in range.
\<close>

fun urls_loop :: "ParseURI \<Rightarrow> ICEServer \<Rightarrow> string list \<Rightarrow> URI list \<Rightarrow> error + URI list" where
  "urls_loop parseURI s [] acc = Inr acc"
| "urls_loop parseURI s (raw # rest) acc =
     (case parseURI raw of
        Inl err \<Rightarrow> Inl (InvalidAccessError err)
      | Inr url \<Rightarrow>
          if Scheme url = SchemeTypeTURN \<or> Scheme url = SchemeTypeTURNS then
            if Username s = [] \<or> Credential s = None then
              Inl (InvalidAccessError ErrNoTurnCredentials)
            else
              (let url = url\<lparr>uri_Username := Username s\<rparr> in
               if CredentialType s = ICECredentialTypePassword then
                 (case Credential s of
                    Some (AnyString password) \<Rightarrow>
                      urls_loop parseURI s rest (acc @ [url\<lparr>uri_Password := password\<rparr>])
                  | _ \<Rightarrow> Inl (InvalidAccessError ErrTurnCredentials))
               else if CredentialType s = ICECredentialTypeOauth then
                 (case Credential s of
                    Some (AnyOAuthCredential c) \<Rightarrow> urls_loop parseURI s rest (acc @ [url])
                  | _ \<Rightarrow> Inl (InvalidAccessError ErrTurnCredentials))
               else Inl (InvalidAccessError ErrTurnCredentials))
          else urls_loop parseURI s rest (acc @ [url]))"

definition urls :: "ParseURI \<Rightarrow> ICEServer \<Rightarrow> error + URI list" where
  "urls parseURI s = urls_loop parseURI s (URLs s) []"

definition validate :: "ParseURI \<Rightarrow> ICEServer \<Rightarrow> error option" where
  "validate parseURI s = (case urls parseURI s of Inl err \<Rightarrow> Some err | Inr us \<Rightarrow> None)"

definition turn_family :: "URI \<Rightarrow> bool" where
  "turn_family u \<longleftrightarrow> Scheme u = SchemeTypeTURN \<or> Scheme u = SchemeTypeTURNS"

text \<open>
  The credential's dynamic type matches the credential type: a \<^verbatim>\<open>string\<close> for
  the password kind, an \<^verbatim>\<open>OAuthCredential\<close> (the struct of a MAC key and an
  access token) for the oauth kind; nothing matches any other credential type.
\<close>

fun credential_matches :: "ICECredentialType \<Rightarrow> any \<Rightarrow> bool" where
  "credential_matches ct (AnyString p) = (ct = ICECredentialTypePassword)"
| "credential_matches ct (AnyOAuthCredential c) = (ct = ICECredentialTypeOauth)"
| "credential_matches ct (AnyOther n) = False"

section \<open>Instances of the imported interfaces\<close>

text \<open>
  One concrete parser and one concrete set of candidate constructors, small
  stand-ins for the packages stun and ice, on which the functions above can
  be evaluated. The parser reads the scheme before the first colon and takes
  the rest as host.
\<close>

definition example_ParseURI :: ParseURI where
  "example_ParseURI raw =
     (let scheme = takeWhile (\<lambda>c. c \<noteq> CHR '':'') raw;
          host = drop (length scheme + 1) raw;
          mk = (\<lambda>sch port. Inr \<lparr>Scheme = sch, Host = host, uri_Port = port,
                   uri_Username = [], uri_Password = [], Proto = ProtoTypeUDP\<rparr>)
      in if scheme = ''stun'' then mk SchemeTypeSTUN 3478
         else if scheme = ''stuns'' then mk SchemeTypeSTUNS 5349
         else if scheme = ''turn'' then mk SchemeTypeTURN 3478
         else if scheme = ''turns'' then mk SchemeTypeTURNS 5349
         else Inl (ExternalError ''unknown scheme type''))"

definition example_candidate ::
    "ice_CandidateType \<Rightarrow> string \<Rightarrow> string \<Rightarrow> string \<Rightarrow> int \<Rightarrow> 16 word \<Rightarrow> string \<Rightarrow>
     32 word \<Rightarrow> CandidateRelatedAddress option \<Rightarrow> ice_Candidate" where
  "example_candidate t cid network address port component foundation priority related =
     \<lparr>ice_ID = cid, ice_Foundation = foundation, ice_Priority = priority,
      ice_Address = address, ice_NetworkShort = network, ice_Port = port,
      ice_Component = component, ice_Type = t, ice_TCPType_String = [],
      ice_RelatedAddress = related,
      ice_Marshal = foundation @ '' '' @ network @ '' '' @ address @ '' typ '' @
                    ice_CandidateType_String t\<rparr>"

definition example_env :: ice_env where
  "example_env =
     \<lparr>NewICEProtocol = (\<lambda>raw. if raw = ''udp'' then (1, None)
                              else if raw = ''tcp'' then (2, None)
                              else (0, Some (ExternalError raw))),
      ICEProtocol_String = (\<lambda>p. if p = 1 then ''udp'' else if p = 2 then ''tcp''
                                  else ErrUnknownType_Error),
      NewTCPType = (\<lambda>s. 0),
      NewCandidateHost = (\<lambda>cfg.
        if host_Network cfg = ''udp'' \<or> host_Network cfg = ''tcp'' then
          Inr (example_candidate CandidateTypeHost (host_CandidateID cfg) (host_Network cfg)
                 (host_Address cfg) (host_Port cfg) (host_Component cfg) (host_Foundation cfg)
                 (host_Priority cfg) None)
        else Inl (ExternalError ''unable to determine networkType'')),
      NewCandidateServerReflexive = (\<lambda>cfg.
        Inr (example_candidate CandidateTypeServerReflexive (srflx_CandidateID cfg)
               (srflx_Network cfg) (srflx_Address cfg) (srflx_Port cfg) (srflx_Component cfg)
               (srflx_Foundation cfg) (srflx_Priority cfg)
               (Some \<lparr>rel_Address = srflx_RelAddr cfg, rel_Port = srflx_RelPort cfg\<rparr>))),
      NewCandidatePeerReflexive = (\<lambda>cfg.
        Inr (example_candidate CandidateTypePeerReflexive (prflx_CandidateID cfg)
               (prflx_Network cfg) (prflx_Address cfg) (prflx_Port cfg) (prflx_Component cfg)
               (prflx_Foundation cfg) (prflx_Priority cfg)
               (Some \<lparr>rel_Address = prflx_RelAddr cfg, rel_Port = prflx_RelPort cfg\<rparr>))),
      NewCandidateRelay = (\<lambda>cfg.
        Inr (example_candidate CandidateTypeRelay (relay_CandidateID cfg)
               (relay_Network cfg) (relay_Address cfg) (relay_Port cfg) (relay_Component cfg)
               (relay_Foundation cfg) (relay_Priority cfg)
               (Some \<lparr>rel_Address = relay_RelAddr cfg, rel_Port = relay_RelPort cfg\<rparr>)))\<rparr>"

text \<open>
  Sample values: a host candidate, an agent candidate of type srflx whose
  related address is empty (what the constructors above build from a srflx
  candidate without one), and an agent candidate of type host that reports a
  related address.
\<close>

definition example_host :: ICECandidate where
  "example_host =
     \<lparr>statsID = ''id1'', Foundation = ''f1'', Priority = 2130706431,
      Address = ''192.0.2.1'', Protocol = 1, Port = 5000, Typ = ICECandidateTypeHost,
      Component = 1, RelatedAddress = [], RelatedPort = 0, TCPType = [],
      SDPMid = ''0'', SDPMLineIndex = 0\<rparr>"

definition example_srflx_agent :: ice_Candidate where
  "example_srflx_agent =
     example_candidate CandidateTypeServerReflexive ''id2'' ''udp'' ''198.51.100.7'' 6000 1
       ''f2'' 1694498815 (Some \<lparr>rel_Address = [], rel_Port = 0\<rparr>)"

definition example_host_agent :: ice_Candidate where
  "example_host_agent =
     example_candidate CandidateTypeHost ''id3'' ''udp'' ''192.0.2.1'' 5000 1
       ''f3'' 2130706431 (Some \<lparr>rel_Address = ''10.0.0.1'', rel_Port = 7\<rparr>)"

section \<open>Transceiver registry and sender start-up\<close>

text \<open>
  The add-track, remove-track and sender start-up code is exercised by
  \<^verbatim>\<open>peerconnection_media_test.go\<close> but lives outside the files modelled here; the
  definitions of this section follow the specification's description of it.
\<close>

text \<open>
  Modelled from the spec: the media kind of a transceiver or media section,
  and the direction, "one of sendrecv|sendonly|recvonly|inactive".
\<close>

datatype RTPCodecType = RTPCodecTypeAudio | RTPCodecTypeVideo

datatype RTPTransceiverDirection =
  RTPTransceiverDirectionSendrecv | RTPTransceiverDirectionSendonly |
  RTPTransceiverDirectionRecvonly | RTPTransceiverDirectionInactive

text \<open>
  Modelled from the spec: the Sender (RTPSender), with its track, its
  "started" flag and whether it was stopped.
\<close>

record Sender =
  track :: string
  started :: bool
  stopped :: bool

text \<open>
  Modelled from the spec: the Transceiver (RTPTransceiver): a mid, assigned
  once negotiated (\<open>None\<close> before), a media kind, a direction and an optional
  owned Sender. The registry is the ordered sequence of transceivers, in
  creation order; a slot is a position in it.
\<close>

record Transceiver =
  mid :: "string option"
  kind :: RTPCodecType
  direction :: RTPTransceiverDirection
  sender :: "Sender option"

text \<open>The position of the first element that satisfies \<open>P\<close>.\<close>

fun find_slot :: "('a \<Rightarrow> bool) \<Rightarrow> 'a list \<Rightarrow> nat option" where
  "find_slot P [] = None"
| "find_slot P (t # ts) =
     (if P t then Some 0 else (case find_slot P ts of None \<Rightarrow> None | Some i \<Rightarrow> Some (Suc i)))"

text \<open>
  Modelled from the spec: which transceivers add-track may reuse, "one of
  matching media kind whose Sender slot is empty and whose direction permits
  sending". The spec does not list the directions that permit sending, and
  \<^verbatim>\<open>TestAddTransceiverAddTrack_Reuse\<close> has add-track reuse a transceiver created
  as recvonly, so the test on the direction is the parameter \<open>permits\<close>.
\<close>

definition reusable ::
    "(RTPTransceiverDirection \<Rightarrow> bool) \<Rightarrow> RTPCodecType \<Rightarrow> Transceiver \<Rightarrow> bool" where
  "reusable permits k t \<longleftrightarrow> kind t = k \<and> sender t = None \<and> permits (direction t)"

text \<open>
  Modelled from the spec: \<^verbatim>\<open>createOrReuse(kind, direction)\<close> as add-track uses
  it: "scans existing transceivers for one of matching media kind whose Sender
  slot is empty and whose direction permits sending; reuses it (reassigning
  direction and attaching a new Sender) if found, else appends a new
  transceiver". The result is the new registry and the slot of the track.
\<close>

definition createOrReuse ::
    "(RTPTransceiverDirection \<Rightarrow> bool) \<Rightarrow> RTPCodecType \<Rightarrow> RTPTransceiverDirection \<Rightarrow>
     Sender \<Rightarrow> Transceiver list \<Rightarrow> Transceiver list \<times> nat" where
  "createOrReuse permits k d s reg =
     (case find_slot (reusable permits k) reg of
        Some i \<Rightarrow> (reg[i := (reg ! i)\<lparr>direction := d, sender := Some s\<rparr>], i)
      | None \<Rightarrow> (reg @ [\<lparr>mid = None, kind = k, direction = d, sender = Some s\<rparr>], length reg))"

text \<open>
  Modelled from the spec: the error of \<^verbatim>\<open>removeTrack(sender) -> Result<unit, Error>\<close>.
\<close>

datatype registry_error = ErrSenderNotCreatedByConnection

text \<open>
  Modelled from the spec: \<^verbatim>\<open>removeTrack(sender)\<close>: "detaches the Sender from
  its owning transceiver but does not remove the transceiver from the registry
  and does not renumber any mid"; it fails when no transceiver owns the sender.
\<close>

definition removeTrack :: "Sender \<Rightarrow> Transceiver list \<Rightarrow> registry_error + Transceiver list" where
  "removeTrack s reg =
     (case find_slot (\<lambda>t. sender t = Some s) reg of
        None \<Rightarrow> Inl ErrSenderNotCreatedByConnection
      | Some i \<Rightarrow> Inr (reg[i := (reg ! i)\<lparr>sender := None\<rparr>]))"

text \<open>
  Modelled from the spec: a direction that "includes send", which is also the
  natural reading of "permits sending".
\<close>

definition includes_send :: "RTPTransceiverDirection \<Rightarrow> bool" where
  "includes_send d \<longleftrightarrow> d = RTPTransceiverDirectionSendrecv \<or> d = RTPTransceiverDirectionSendonly"







text \<open>
  Sample values for the registry: a registry with an audio transceiver and a
  negotiated video transceiver whose sender slot holds \<open>s\<close>; the registry of
  \<^verbatim>\<open>TestAddTransceiverAddTrack_Reuse\<close> after its \<^verbatim>\<open>AddTransceiverFromKind\<close>; and
  the offerer of \<^verbatim>\<open>TestPeerConnection_Start_Only_Negotiated_Senders\<close> when the
  answer arrives: its first track was in the offer, its second was added later
  and has no mid yet.
\<close>

definition example_sender :: "string \<Rightarrow> Sender" where
  "example_sender name = \<lparr>track = name, started = False, stopped = False\<rparr>"

definition example_with :: "Sender option \<Rightarrow> Transceiver list" where
  "example_with s =
     [\<lparr>mid = Some ''0'', kind = RTPCodecTypeAudio, direction = RTPTransceiverDirectionSendrecv,
       sender = Some (example_sender ''mic'')\<rparr>,
      \<lparr>mid = Some ''1'', kind = RTPCodecTypeVideo, direction = RTPTransceiverDirectionSendrecv,
       sender = s\<rparr>]"

definition test_registry :: "Transceiver list" where
  "test_registry =
     [\<lparr>mid = None, kind = RTPCodecTypeVideo, direction = RTPTransceiverDirectionRecvonly,
       sender = None\<rparr>]"



text \<open>
  Modelled from the spec: the reading of "permits sending" under which
  \<^verbatim>\<open>TestAddTransceiverAddTrack_Reuse\<close> passes: reuse reassigns the direction, so
  no direction rules a transceiver out.
\<close>

definition every_direction :: "RTPTransceiverDirection \<Rightarrow> bool" where
  "every_direction d \<longleftrightarrow> True"

text \<open>
  More sample values: a video transceiver with the given mid and sender slot,
  and a registry with two free video transceivers.
\<close>

definition video_slot :: "string option \<Rightarrow> Sender option \<Rightarrow> Transceiver" where
  "video_slot m s =
     \<lparr>mid = m, kind = RTPCodecTypeVideo, direction = RTPTransceiverDirectionSendrecv,
      sender = s\<rparr>"

definition two_free_slots :: "Transceiver list" where
  "two_free_slots = [video_slot (Some ''0'') None, video_slot (Some ''1'') None]"

section \<open>The wire form of a candidate\<close>

text \<open>
  The string form of a candidate is written and parsed by package ice
  (\<^verbatim>\<open>Marshal\<close>, \<^verbatim>\<open>UnmarshalCandidate\<close>), outside the files modelled here. The
  definitions of this section follow the specification's description of the
  wire form: the candidate-attribute grammar
  \<^verbatim>\<open>foundation component transport priority address port typ type [raddr X rport Y] [tcptype Z]\<close>,
  fields separated by single spaces, numbers in decimal.
\<close>

text \<open>Modelled from the spec: decimal digits, for the numeric fields of the grammar.\<close>

definition digit_char :: "nat \<Rightarrow> char" where
  "digit_char d = ''0123456789'' ! d"

text \<open>The position of the first occurrence of an element.\<close>

fun index_of :: "'a \<Rightarrow> 'a list \<Rightarrow> nat option" where
  "index_of x [] = None"
| "index_of x (y # ys) =
     (if x = y then Some 0 else (case index_of x ys of None \<Rightarrow> None | Some i \<Rightarrow> Some (Suc i)))"

definition digit_value :: "char \<Rightarrow> nat option" where
  "digit_value c = index_of c ''0123456789''"

text \<open>Modelled from the spec: a number written in decimal, without leading zeros.\<close>

function show_nat :: "nat \<Rightarrow> string" where
  "show_nat n = (if n < 10 then [digit_char n] else show_nat (n div 10) @ [digit_char (n mod 10)])"
  by pat_completeness auto

termination
  by (relation "measure id") auto

declare show_nat.simps [simp del]

text \<open>
  Modelled from the spec: a decimal number read back; anything but a non-empty
  run of digits is refused.
\<close>

fun parse_digits :: "nat \<Rightarrow> string \<Rightarrow> nat option" where
  "parse_digits acc [] = Some acc"
| "parse_digits acc (c # cs) =
     (case digit_value c of None \<Rightarrow> None | Some d \<Rightarrow> parse_digits (10 * acc + d) cs)"

definition parse_nat :: "string \<Rightarrow> nat option" where
  "parse_nat s = (if s = [] then None else parse_digits 0 s)"

text \<open>
  Modelled from the spec: the fields of the grammar joined by the separator,
  and a string split at every separator (an empty field stays an empty field).
\<close>

fun join_with :: "char \<Rightarrow> string list \<Rightarrow> string" where
  "join_with c [] = []"
| "join_with c [t] = t"
| "join_with c (t # u # ts) = t @ c # join_with c (u # ts)"

fun split_on :: "char \<Rightarrow> string \<Rightarrow> string list" where
  "split_on c [] = [[]]"
| "split_on c (x # xs) =
     (if x = c then [] # split_on c xs
      else (case split_on c xs of [] \<Rightarrow> [[x]] | t # ts \<Rightarrow> (x # t) # ts))"

text \<open>
  Modelled from the spec: \<^verbatim>\<open>ICEProtocol\<close> with its two protocols (protocol
  \<open>\<in> {udp, tcp}\<close>) after the zero value for an unknown protocol, and its
  conversions from and to the transport field of the grammar; any other value
  prints as the unknown marker.
\<close>

definition ICEProtocolUDP :: ICEProtocol where
  "ICEProtocolUDP = 1"

definition ICEProtocolTCP :: ICEProtocol where
  "ICEProtocolTCP = 2"

definition wire_NewICEProtocol :: "string \<Rightarrow> ICEProtocol \<times> error option" where
  "wire_NewICEProtocol raw =
     (if raw = ''udp'' then (ICEProtocolUDP, None)
      else if raw = ''tcp'' then (ICEProtocolTCP, None)
      else (0, Some (ExternalError raw)))"

definition wire_ICEProtocol_String :: "ICEProtocol \<Rightarrow> string" where
  "wire_ICEProtocol_String p =
     (if p = ICEProtocolUDP then ''udp'' else if p = ICEProtocolTCP then ''tcp''
      else ErrUnknownType_Error)"

text \<open>
  Modelled from the spec: the optional \<^verbatim>\<open>tcptype\<close> attribute of the grammar, of
  package ice: active, passive or simultaneous-open, and unspecified otherwise.
\<close>

definition wire_NewTCPType :: "string \<Rightarrow> ice_TCPType" where
  "wire_NewTCPType s =
     (if s = ''active'' then 1 else if s = ''passive'' then 2 else if s = ''so'' then 3 else 0)"

definition wire_TCPType_String :: "ice_TCPType \<Rightarrow> string" where
  "wire_TCPType_String t =
     (if t = 1 then ''active'' else if t = 2 then ''passive'' else if t = 3 then ''so'' else [])"

text \<open>
  Modelled from the spec: \<^verbatim>\<open>toWireForm\<close>, the fields of the candidate-attribute
  grammar in order. A candidate that carries a related address writes
  \<^verbatim>\<open>raddr X rport Y\<close>, with an empty \<open>X\<close> when the related address is empty ("emit
  an empty related-address field rather than failing"); \<^verbatim>\<open>tcptype Z\<close> is written
  when a TCP type is set.
\<close>

definition wire_tokens ::
    "ice_CandidateType \<Rightarrow> string \<Rightarrow> string \<Rightarrow> int \<Rightarrow> 16 word \<Rightarrow> string \<Rightarrow> 32 word \<Rightarrow>
     CandidateRelatedAddress option \<Rightarrow> string \<Rightarrow> string list" where
  "wire_tokens t network address port component foundation priority related tcp =
     [foundation, show_nat (unat component), network, show_nat (unat priority), address,
      show_nat (nat port), ''typ'', ice_CandidateType_String t] @
     (case related of
        None \<Rightarrow> []
      | Some ra \<Rightarrow> [''raddr'', rel_Address ra, ''rport'', show_nat (nat (rel_Port ra))]) @
     (if tcp = [] then [] else [''tcptype'', tcp])"

text \<open>
  Modelled from the spec: a candidate of package ice that reports the fields
  it was built from and whose \<^verbatim>\<open>Marshal\<close> is the wire form of those fields.
\<close>

definition wire_candidate ::
    "ice_CandidateType \<Rightarrow> string \<Rightarrow> string \<Rightarrow> string \<Rightarrow> int \<Rightarrow> 16 word \<Rightarrow> string \<Rightarrow>
     32 word \<Rightarrow> CandidateRelatedAddress option \<Rightarrow> string \<Rightarrow> ice_Candidate" where
  "wire_candidate t cid network address port component foundation priority related tcp =
     \<lparr>ice_ID = cid, ice_Foundation = foundation, ice_Priority = priority,
      ice_Address = address, ice_NetworkShort = network, ice_Port = port,
      ice_Component = component, ice_Type = t, ice_TCPType_String = tcp,
      ice_RelatedAddress = related,
      ice_Marshal = join_with CHR '' ''
        (wire_tokens t network address port component foundation priority related tcp)\<rparr>"

text \<open>
  Modelled from the spec: the constructors of package ice. They accept the
  transports udp and tcp (protocol \<open>\<in> {udp, tcp}\<close>) and refuse any other; host
  candidates carry no related address, srflx, prflx and relay candidates carry
  the one of their configuration.
\<close>

definition wire_network_ok :: "string \<Rightarrow> bool" where
  "wire_network_ok network \<longleftrightarrow> network = ''udp'' \<or> network = ''tcp''"

definition wire_env :: ice_env where
  "wire_env =
     \<lparr>NewICEProtocol = wire_NewICEProtocol,
      ICEProtocol_String = wire_ICEProtocol_String,
      NewTCPType = wire_NewTCPType,
      NewCandidateHost = (\<lambda>cfg.
        if wire_network_ok (host_Network cfg) then
          Inr (wire_candidate CandidateTypeHost (host_CandidateID cfg) (host_Network cfg)
                 (host_Address cfg) (host_Port cfg) (host_Component cfg) (host_Foundation cfg)
                 (host_Priority cfg) None (wire_TCPType_String (host_TCPType cfg)))
        else Inl (ExternalError ''unable to determine networkType'')),
      NewCandidateServerReflexive = (\<lambda>cfg.
        if wire_network_ok (srflx_Network cfg) then
          Inr (wire_candidate CandidateTypeServerReflexive (srflx_CandidateID cfg)
                 (srflx_Network cfg) (srflx_Address cfg) (srflx_Port cfg) (srflx_Component cfg)
                 (srflx_Foundation cfg) (srflx_Priority cfg)
                 (Some \<lparr>rel_Address = srflx_RelAddr cfg, rel_Port = srflx_RelPort cfg\<rparr>) [])
        else Inl (ExternalError ''unable to determine networkType'')),
      NewCandidatePeerReflexive = (\<lambda>cfg.
        if wire_network_ok (prflx_Network cfg) then
          Inr (wire_candidate CandidateTypePeerReflexive (prflx_CandidateID cfg)
                 (prflx_Network cfg) (prflx_Address cfg) (prflx_Port cfg) (prflx_Component cfg)
                 (prflx_Foundation cfg) (prflx_Priority cfg)
                 (Some \<lparr>rel_Address = prflx_RelAddr cfg, rel_Port = prflx_RelPort cfg\<rparr>) [])
        else Inl (ExternalError ''unable to determine networkType'')),
      NewCandidateRelay = (\<lambda>cfg.
        if wire_network_ok (relay_Network cfg) then
          Inr (wire_candidate CandidateTypeRelay (relay_CandidateID cfg)
                 (relay_Network cfg) (relay_Address cfg) (relay_Port cfg) (relay_Component cfg)
                 (relay_Foundation cfg) (relay_Priority cfg)
                 (Some \<lparr>rel_Address = relay_RelAddr cfg, rel_Port = relay_RelPort cfg\<rparr>) [])
        else Inl (ExternalError ''unable to determine networkType''))\<rparr>"

text \<open>
  Modelled from the spec: the optional attributes after the eight required
  fields: \<^verbatim>\<open>raddr X rport Y\<close> directly after the type, and \<^verbatim>\<open>tcptype Z\<close> anywhere
  after it.
\<close>

fun related_of :: "string list \<Rightarrow> string \<times> int" where
  "related_of (kw # a # kw' # p # rest) =
     (if kw = ''raddr'' \<and> kw' = ''rport'' then
        (a, case parse_nat p of None \<Rightarrow> 0 | Some n \<Rightarrow> int n)
      else ([], 0))"
| "related_of rest = ([], 0)"

fun tcptype_of :: "string list \<Rightarrow> string" where
  "tcptype_of (kw # v # rest) = (if kw = ''tcptype'' then v else tcptype_of (v # rest))"
| "tcptype_of rest = []"

text \<open>
  Modelled from the spec: \<^verbatim>\<open>fromWireForm\<close> on the side of package ice
  (\<^verbatim>\<open>UnmarshalCandidate\<close>): the string is split into fields, the numeric fields
  are read (component in 16 bits, priority in 32), the seventh field must be
  \<^verbatim>\<open>typ\<close>, and the candidate is built by the constructor of its type; it "fails
  if type is not one of the four known kinds".
\<close>

definition UnmarshalCandidate :: "ice_env \<Rightarrow> string \<Rightarrow> error + ice_Candidate" where
  "UnmarshalCandidate env raw =
     (case split_on CHR '' '' raw of
        foundation # cn # network # pn # address # po # kw # ty # rest \<Rightarrow>
          (case (parse_nat cn, parse_nat pn, parse_nat po) of
             (Some component, Some priority, Some p) \<Rightarrow>
               if kw \<noteq> ''typ'' \<or> 65536 \<le> component \<or> 4294967296 \<le> priority then
                 Inl (ExternalError ''could not parse candidate'')
               else if ty = ''host'' then
                 NewCandidateHost env
                   \<lparr>host_CandidateID = [], host_Network = network, host_Address = address,
                    host_Port = int p, host_Component = of_nat component,
                    host_TCPType = NewTCPType env (tcptype_of rest),
                    host_Foundation = foundation, host_Priority = of_nat priority\<rparr>
               else if ty = ''srflx'' then
                 NewCandidateServerReflexive env
                   \<lparr>srflx_CandidateID = [], srflx_Network = network, srflx_Address = address,
                    srflx_Port = int p, srflx_Component = of_nat component,
                    srflx_Foundation = foundation, srflx_Priority = of_nat priority,
                    srflx_RelAddr = fst (related_of rest), srflx_RelPort = snd (related_of rest)\<rparr>
               else if ty = ''prflx'' then
                 NewCandidatePeerReflexive env
                   \<lparr>prflx_CandidateID = [], prflx_Network = network, prflx_Address = address,
                    prflx_Port = int p, prflx_Component = of_nat component,
                    prflx_Foundation = foundation, prflx_Priority = of_nat priority,
                    prflx_RelAddr = fst (related_of rest), prflx_RelPort = snd (related_of rest)\<rparr>
               else if ty = ''relay'' then
                 NewCandidateRelay env
                   \<lparr>relay_CandidateID = [], relay_Network = network, relay_Address = address,
                    relay_Port = int p, relay_Component = of_nat component,
                    relay_Foundation = foundation, relay_Priority = of_nat priority,
                    relay_RelAddr = fst (related_of rest), relay_RelPort = snd (related_of rest)\<rparr>
               else Inl (ExternalError ''unknown candidate type'')
           | _ \<Rightarrow> Inl (ExternalError ''could not parse candidate''))
      | _ \<Rightarrow> Inl (ExternalError ''attribute not long enough to be ICE candidate''))"

text \<open>
  Modelled from the spec: \<^verbatim>\<open>toWireForm(candidate) -> string | Error\<close> is
  \<open>toICE\<close> followed by \<^verbatim>\<open>Marshal\<close>, as in \<^verbatim>\<open>ToJSON\<close>; and
  \<^verbatim>\<open>fromWireForm\<close> is \<^verbatim>\<open>UnmarshalCandidate\<close> followed by
  \<open>newICECandidateFromICE\<close>.
\<close>

definition toWireForm :: "ice_env \<Rightarrow> ICECandidate \<Rightarrow> error + string" where
  "toWireForm env c = (case toICE env c of Inl err \<Rightarrow> Inl err | Inr ic \<Rightarrow> Inr (ice_Marshal ic))"

definition fromWireForm ::
    "ice_env \<Rightarrow> string \<Rightarrow> string \<Rightarrow> 16 word \<Rightarrow> ICECandidate \<times> error option" where
  "fromWireForm env raw sdpMid sdpMLineIndex =
     (case UnmarshalCandidate env raw of
        Inl err \<Rightarrow> (ICECandidate_zero, Some err)
      | Inr ic \<Rightarrow> newICECandidateFromICE env ic sdpMid sdpMLineIndex)"

text \<open>A sample srflx candidate.\<close>

definition example_srflx :: ICECandidate where
  "example_srflx =
     \<lparr>statsID = ''id2'', Foundation = ''f2'', Priority = 1694498815,
      Address = ''198.51.100.7'', Protocol = 1, Port = 6000, Typ = ICECandidateTypeSrflx,
      Component = 1, RelatedAddress = ''192.0.2.1'', RelatedPort = 5000, TCPType = [],
      SDPMid = ''0'', SDPMLineIndex = 0\<rparr>"

text \<open>The four known kinds of package ice, and the two protocols.\<close>

definition four_types :: "ice_CandidateType \<Rightarrow> bool" where
  "four_types t \<longleftrightarrow> t = CandidateTypeHost \<or> t = CandidateTypeServerReflexive \<or>
     t = CandidateTypePeerReflexive \<or> t = CandidateTypeRelay"

definition udp_or_tcp :: "ICEProtocol \<Rightarrow> bool" where
  "udp_or_tcp p \<longleftrightarrow> p = ICEProtocolUDP \<or> p = ICEProtocolTCP"

lemmas type_consts =
  ICECandidateTypeUnknown_def ICECandidateTypeHost_def ICECandidateTypeSrflx_def
  ICECandidateTypePrflx_def ICECandidateTypeRelay_def

lemmas type_strs =
  iceCandidateTypeHostStr_def iceCandidateTypeSrflxStr_def
  iceCandidateTypePrflxStr_def iceCandidateTypeRelayStr_def

lemmas ice_type_consts =
  CandidateTypeUnspecified_def CandidateTypeHost_def CandidateTypeServerReflexive_def
  CandidateTypePeerReflexive_def CandidateTypeRelay_def

lemma NewICECandidateType_known:
  "known_type_string s \<Longrightarrow> snd (NewICECandidateType s) = None \<and> known_type (fst (NewICECandidateType s))"
  by (auto simp: known_type_string_def NewICECandidateType_def known_type_def type_strs)

lemma NewICECandidateType_unknown:
  "\<not> known_type_string s \<Longrightarrow>
     NewICECandidateType s = (ICECandidateTypeUnknown, Some (ErrICECandidateTypeUnknown s))"
  by (simp add: known_type_string_def NewICECandidateType_def type_strs)

lemma NewICECandidateType_String:
  "known_type t \<Longrightarrow> NewICECandidateType (ICECandidateType_String t) = (t, None)"
  by (auto simp: known_type_def NewICECandidateType_def ICECandidateType_String_def
      type_strs type_consts)

lemma toICE_unknown_type:
  "\<not> known_type (Typ c) \<Longrightarrow>
     toICE env c = Inl (ErrICECandidateTypeUnknown (ICECandidateType_String (Typ c)))"
  by (simp add: toICE_def known_type_def)

section \<open>Candidate types\<close>

text \<open>
  C3: building a typed candidate type from its wire-form string succeeds
  exactly for the four known kinds. For every string \<open>s\<close>,
  \<open>NewICECandidateType s\<close> returns no error if and only if \<open>s\<close> is one of
  "host", "srflx", "prflx", "relay", and then the value is one of the four
  known types; for every other string it returns \<open>ICECandidateTypeUnknown\<close>
  together with the unknown-candidate-type error. Likewise \<open>toICE\<close> of a
  candidate whose \<open>Typ\<close> is none of the four known kinds fails with the
  unknown-candidate-type error, whatever the ice package does.
\<close>

theorem NewICECandidateType_total_on_four_kinds:
  "(snd (NewICECandidateType s) = None \<longleftrightarrow> s \<in> {''host'', ''srflx'', ''prflx'', ''relay''}) \<and>
   (s \<in> {''host'', ''srflx'', ''prflx'', ''relay''} \<longrightarrow> known_type (fst (NewICECandidateType s))) \<and>
   (s \<notin> {''host'', ''srflx'', ''prflx'', ''relay''} \<longrightarrow>
      NewICECandidateType s = (ICECandidateTypeUnknown, Some (ErrICECandidateTypeUnknown s))) \<and>
   (\<not> known_type (Typ c) \<longrightarrow> (\<exists>detail. toICE env c = Inl (ErrICECandidateTypeUnknown detail)))"
proof -
  have k: "known_type_string s \<longleftrightarrow> s \<in> {''host'', ''srflx'', ''prflx'', ''relay''}"
    by (auto simp: known_type_string_def)
  show ?thesis
  proof (cases "known_type_string s")
    case True
    with NewICECandidateType_known [of s] k toICE_unknown_type [of c env] show ?thesis
      by auto
  next
    case False
    with NewICECandidateType_unknown [of s] k toICE_unknown_type [of c env] show ?thesis
      by auto
  qed
qed

theorem NewICECandidateType_total_on_four_kinds_witness:
  "snd (NewICECandidateType ''relay'') = None \<and>
   known_type (fst (NewICECandidateType ''relay'')) \<and>
   NewICECandidateType ''Relay'' =
     (ICECandidateTypeUnknown, Some (ErrICECandidateTypeUnknown ''Relay'')) \<and>
   \<not> known_type (Typ (ICECandidate_zero\<lparr>Typ := 7\<rparr>)) \<and>
   (\<exists>detail. toICE example_env (ICECandidate_zero\<lparr>Typ := 7\<rparr>) =
      Inl (ErrICECandidateTypeUnknown detail))"
proof -
  have u: "\<not> known_type (Typ (ICECandidate_zero\<lparr>Typ := 7\<rparr>))"
    by (simp add: known_type_def type_consts)
  from NewICECandidateType_total_on_four_kinds [of "''relay''" "ICECandidate_zero\<lparr>Typ := 7\<rparr>" example_env]
    NewICECandidateType_total_on_four_kinds [of "''Relay''" "ICECandidate_zero\<lparr>Typ := 7\<rparr>" example_env]
    u
  show ?thesis by simp
qed

text \<open>
  C10 as stated, that \<open>getCandidateType\<close> and \<open>convertTypeFromICE\<close> return the
  same \<open>ICECandidateType\<close> for every input, fails at the input 5: the first
  returns \<open>ICECandidateTypeUnknown\<close>, the second the converted input.
\<close>

theorem getCandidateType_convertTypeFromICE_differ:
  "fst (getCandidateType 5) = ICECandidateTypeUnknown \<and>
   fst (convertTypeFromICE 5) = 5 \<and>
   fst (getCandidateType 5) \<noteq> fst (convertTypeFromICE 5)"
  by (simp add: getCandidateType_def convertTypeFromICE_def ice_type_consts type_consts)

text \<open>
  C10, amended: for every input the two functions agree on whether an error
  is returned, and they return the same \<open>ICECandidateType\<close> on every input for
  which no error is returned (the four known kinds) and on
  \<open>CandidateTypeUnspecified\<close>. On an input that is none of the four known kinds
  \<open>getCandidateType\<close> returns \<open>ICECandidateTypeUnknown\<close>, \<open>convertTypeFromICE\<close>
  returns the input's numeric value, and the two errors wrap different
  sentinels.
\<close>

theorem getCandidateType_convertTypeFromICE_agree:
  "(snd (getCandidateType t) = None \<longleftrightarrow> snd (convertTypeFromICE t) = None) \<and>
   (snd (getCandidateType t) = None \<or> t = CandidateTypeUnspecified \<longrightarrow>
      fst (getCandidateType t) = fst (convertTypeFromICE t)) \<and>
   (t \<notin> {CandidateTypeHost, CandidateTypeServerReflexive, CandidateTypePeerReflexive,
          CandidateTypeRelay} \<longrightarrow>
      getCandidateType t =
        (ICECandidateTypeUnknown,
         Some (ErrICEInvalidConvertCandidateType (ice_CandidateType_String t))) \<and>
      convertTypeFromICE t =
        (uint t, Some (ErrICECandidateTypeUnknown (ice_CandidateType_String t))))"
  by (auto simp: getCandidateType_def convertTypeFromICE_def ice_type_consts type_consts)

theorem getCandidateType_convertTypeFromICE_agree_witness:
  "snd (getCandidateType CandidateTypeRelay) = None \<and>
   fst (getCandidateType CandidateTypeRelay) = fst (convertTypeFromICE CandidateTypeRelay) \<and>
   (9 :: ice_CandidateType) \<notin> {CandidateTypeHost, CandidateTypeServerReflexive,
      CandidateTypePeerReflexive, CandidateTypeRelay} \<and>
   getCandidateType 9 =
     (ICECandidateTypeUnknown, Some (ErrICEInvalidConvertCandidateType (ice_CandidateType_String 9))) \<and>
   convertTypeFromICE 9 = (uint (9 :: 8 word), Some (ErrICECandidateTypeUnknown (ice_CandidateType_String 9)))"
proof -
  have r: "snd (getCandidateType CandidateTypeRelay) = None"
    by (simp add: getCandidateType_def ice_type_consts)
  have n: "(9 :: ice_CandidateType) \<notin> {CandidateTypeHost, CandidateTypeServerReflexive,
      CandidateTypePeerReflexive, CandidateTypeRelay}"
    by (simp add: ice_type_consts)
  from getCandidateType_convertTypeFromICE_agree [of CandidateTypeRelay]
    getCandidateType_convertTypeFromICE_agree [of 9] r n
  show ?thesis by simp
qed

lemma urls_loop_error_kind:
  "urls_loop p s xs acc = Inl e \<Longrightarrow> \<exists>cause. e = InvalidAccessError cause"
  by (induction xs arbitrary: acc)
     (auto simp: Let_def split: sum.splits if_splits option.splits any.splits)

lemma urls_loop_missing_credentials:
  "raw \<in> set xs \<Longrightarrow> p raw = Inr u \<Longrightarrow> turn_family u \<Longrightarrow>
   Username s = [] \<or> Credential s = None \<Longrightarrow> \<exists>e. urls_loop p s xs acc = Inl e"
  by (induction xs arbitrary: acc)
     (auto simp: Let_def turn_family_def split: sum.splits if_splits option.splits any.splits)

lemma urls_loop_no_turn:
  "\<forall>raw \<in> set xs. \<exists>u. p raw = Inr u \<and> \<not> turn_family u \<Longrightarrow>
   \<exists>us. urls_loop p s xs acc = Inr us"
  by (induction xs arbitrary: acc)
     (auto simp: Let_def turn_family_def split: sum.splits if_splits option.splits any.splits)

lemma urls_loop_credential_matches:
  "raw \<in> set xs \<Longrightarrow> p raw = Inr u \<Longrightarrow> turn_family u \<Longrightarrow>
   Credential s = Some cred \<Longrightarrow> urls_loop p s xs acc = Inr us \<Longrightarrow>
   credential_matches (CredentialType s) cred"
  by (induction xs arbitrary: acc)
     (auto simp: Let_def turn_family_def
           split: sum.splits if_splits option.splits any.splits)

lemma validate_error_kind:
  "validate p s = Some e \<Longrightarrow> \<exists>cause. e = InvalidAccessError cause"
  by (auto simp: validate_def urls_def split: sum.splits dest: urls_loop_error_kind)

lemma example_ParseURI_turn:
  "example_ParseURI ''turn:example.com'' =
     Inr \<lparr>Scheme = SchemeTypeTURN, Host = ''example.com'', uri_Port = 3478,
          uri_Username = [], uri_Password = [], Proto = ProtoTypeUDP\<rparr>"
  by (simp add: example_ParseURI_def Let_def)

lemma example_ParseURI_stun:
  "example_ParseURI ''stun:example.com'' =
     Inr \<lparr>Scheme = SchemeTypeSTUN, Host = ''example.com'', uri_Port = 3478,
          uri_Username = [], uri_Password = [], Proto = ProtoTypeUDP\<rparr>"
  by (simp add: example_ParseURI_def Let_def)

section \<open>ICE server validation\<close>

text \<open>
  C1: for every ICEServer and every parser, validation fails with
  \<open>InvalidAccessError\<close> whenever some URL of its list parses to a TURN or TURNS
  URI and the username is empty or the credential is absent (\<open>None\<close>). In
  particular, for a parser that reads "turn:example.com" as a TURN URI, the
  server with that single URL, empty username and no credential fails with
  \<open>InvalidAccessError\<close> (cause: no TURN credentials), and the same URL with
  username "u", string credential "p" and the password credential type
  passes.
\<close>

theorem validate_turn_without_credentials:
  "(raw \<in> set (URLs s) \<and> parseURI raw = Inr u \<and> turn_family u \<and>
      (Username s = [] \<or> Credential s = None) \<longrightarrow>
      (\<exists>cause. validate parseURI s = Some (InvalidAccessError cause))) \<and>
   (parseURI ''turn:example.com'' = Inr v \<and> turn_family v \<longrightarrow>
      validate parseURI \<lparr>URLs = [''turn:example.com''], Username = [], Credential = None,
                         CredentialType = ct\<rparr> = Some (InvalidAccessError ErrNoTurnCredentials) \<and>
      validate parseURI \<lparr>URLs = [''turn:example.com''], Username = ''u'',
                         Credential = Some (AnyString ''p''),
                         CredentialType = ICECredentialTypePassword\<rparr> = None)"
proof (intro conjI impI)
  assume a: "raw \<in> set (URLs s) \<and> parseURI raw = Inr u \<and> turn_family u \<and>
      (Username s = [] \<or> Credential s = None)"
  then obtain e where "urls_loop parseURI s (URLs s) [] = Inl e"
    using urls_loop_missing_credentials [of raw "URLs s" parseURI u s "[]"] by blast
  then have v: "validate parseURI s = Some e"
    by (simp add: validate_def urls_def)
  with validate_error_kind [OF v]
  show "\<exists>cause. validate parseURI s = Some (InvalidAccessError cause)"
    by blast
next
  assume "parseURI ''turn:example.com'' = Inr v \<and> turn_family v"
  then show "validate parseURI \<lparr>URLs = [''turn:example.com''], Username = [], Credential = None,
                         CredentialType = ct\<rparr> = Some (InvalidAccessError ErrNoTurnCredentials)"
    by (simp add: validate_def urls_def turn_family_def)
next
  assume "parseURI ''turn:example.com'' = Inr v \<and> turn_family v"
  then show "validate parseURI \<lparr>URLs = [''turn:example.com''], Username = ''u'',
                         Credential = Some (AnyString ''p''),
                         CredentialType = ICECredentialTypePassword\<rparr> = None"
    by (simp add: validate_def urls_def turn_family_def Let_def)
qed

theorem validate_turn_without_credentials_witness:
  "''turns:relay.example.org'' \<in> set [''stun:example.com'', ''turns:relay.example.org''] \<and>
   turn_family \<lparr>Scheme = SchemeTypeTURNS, Host = ''relay.example.org'', uri_Port = 5349,
          uri_Username = [], uri_Password = [], Proto = ProtoTypeUDP\<rparr> \<and>
   (\<exists>cause. validate example_ParseURI
      \<lparr>URLs = [''stun:example.com'', ''turns:relay.example.org''], Username = ''u'',
       Credential = None, CredentialType = ICECredentialTypePassword\<rparr> =
      Some (InvalidAccessError cause)) \<and>
   validate example_ParseURI \<lparr>URLs = [''turn:example.com''], Username = [], Credential = None,
      CredentialType = ICECredentialTypeOauth\<rparr> = Some (InvalidAccessError ErrNoTurnCredentials) \<and>
   validate example_ParseURI \<lparr>URLs = [''turn:example.com''], Username = ''u'',
      Credential = Some (AnyString ''p''), CredentialType = ICECredentialTypePassword\<rparr> = None"
proof -
  have p: "example_ParseURI ''turns:relay.example.org'' =
     Inr \<lparr>Scheme = SchemeTypeTURNS, Host = ''relay.example.org'', uri_Port = 5349,
          uri_Username = [], uri_Password = [], Proto = ProtoTypeUDP\<rparr>"
    by (simp add: example_ParseURI_def Let_def)
  have t: "turn_family \<lparr>Scheme = SchemeTypeTURNS, Host = ''relay.example.org'', uri_Port = 5349,
          uri_Username = [], uri_Password = [], Proto = ProtoTypeUDP\<rparr>"
    "turn_family \<lparr>Scheme = SchemeTypeTURN, Host = ''example.com'', uri_Port = 3478,
          uri_Username = [], uri_Password = [], Proto = ProtoTypeUDP\<rparr>"
    by (simp_all add: turn_family_def)
  from validate_turn_without_credentials
     [of "''turns:relay.example.org''"
         "\<lparr>URLs = [''stun:example.com'', ''turns:relay.example.org''], Username = ''u'',
           Credential = None, CredentialType = ICECredentialTypePassword\<rparr>"
         example_ParseURI
         "\<lparr>Scheme = SchemeTypeTURNS, Host = ''relay.example.org'', uri_Port = 5349,
          uri_Username = [], uri_Password = [], Proto = ProtoTypeUDP\<rparr>"
         "\<lparr>Scheme = SchemeTypeTURN, Host = ''example.com'', uri_Port = 3478,
          uri_Username = [], uri_Password = [], Proto = ProtoTypeUDP\<rparr>"
         ICECredentialTypeOauth]
    p t example_ParseURI_turn
  show ?thesis by simp
qed

text \<open>
  C2: for every ICEServer with a URL that parses to a TURN or TURNS URI, a
  non-empty username and a credential that is present, validation succeeds
  only when the credential's dynamic type matches the credential type: a
  string with the password type, an OAuthCredential with the oauth type.
  Any mismatch (oauth with a string, password with an OAuthCredential, a
  credential of another dynamic type, any other credential type value)
  yields \<open>InvalidAccessError\<close>.
\<close>

theorem validate_credential_type_must_match:
  "raw \<in> set (URLs s) \<Longrightarrow> parseURI raw = Inr u \<Longrightarrow> turn_family u \<Longrightarrow>
   Username s \<noteq> [] \<Longrightarrow> Credential s = Some cred \<Longrightarrow>
   (validate parseURI s = None \<longrightarrow>
      (CredentialType s = ICECredentialTypePassword \<and> (\<exists>password. cred = AnyString password)) \<or>
      (CredentialType s = ICECredentialTypeOauth \<and> (\<exists>c. cred = AnyOAuthCredential c))) \<and>
   (\<not> credential_matches (CredentialType s) cred \<longrightarrow>
      (\<exists>cause. validate parseURI s = Some (InvalidAccessError cause)))"
proof -
  assume a: "raw \<in> set (URLs s)" "parseURI raw = Inr u" "turn_family u"
    "Username s \<noteq> []" "Credential s = Some cred"
  have m: "credential_matches (CredentialType s) cred" if "validate parseURI s = None"
  proof -
    from that obtain us where "urls_loop parseURI s (URLs s) [] = Inr us"
      by (auto simp: validate_def urls_def split: sum.splits)
    with a show ?thesis
      by (blast intro: urls_loop_credential_matches)
  qed
  have e: "credential_matches ct cred \<Longrightarrow>
      (ct = ICECredentialTypePassword \<and> (\<exists>password. cred = AnyString password)) \<or>
      (ct = ICECredentialTypeOauth \<and> (\<exists>c. cred = AnyOAuthCredential c))" for ct
    by (cases cred) simp_all
  have f: "\<exists>cause. validate parseURI s = Some (InvalidAccessError cause)"
    if "\<not> credential_matches (CredentialType s) cred"
  proof (cases "validate parseURI s")
    case None
    with m that show ?thesis by simp
  next
    case (Some err)
    with validate_error_kind [OF Some] show ?thesis by blast
  qed
  from m e f show ?thesis by blast
qed

theorem validate_credential_type_must_match_witness:
  "validate example_ParseURI \<lparr>URLs = [''turn:example.com''], Username = ''u'',
      Credential = Some (AnyString ''p''), CredentialType = ICECredentialTypeOauth\<rparr> =
     Some (InvalidAccessError ErrTurnCredentials) \<and>
   \<not> credential_matches ICECredentialTypeOauth (AnyString ''p'') \<and>
   (\<exists>cause. validate example_ParseURI \<lparr>URLs = [''turn:example.com''], Username = ''u'',
      Credential = Some (AnyString ''p''), CredentialType = ICECredentialTypeOauth\<rparr> =
     Some (InvalidAccessError cause)) \<and>
   validate example_ParseURI \<lparr>URLs = [''turn:example.com''], Username = ''u'',
      Credential = Some (AnyOAuthCredential \<lparr>MACKey = ''k'', AccessToken = ''t''\<rparr>),
      CredentialType = ICECredentialTypeOauth\<rparr> = None"
proof -
  have t: "turn_family \<lparr>Scheme = SchemeTypeTURN, Host = ''example.com'', uri_Port = 3478,
          uri_Username = [], uri_Password = [], Proto = ProtoTypeUDP\<rparr>"
    by (simp add: turn_family_def)
  have n: "\<not> credential_matches ICECredentialTypeOauth (AnyString ''p'')"
    by (simp add: ICECredentialTypePassword_def ICECredentialTypeOauth_def)
  have v1: "validate example_ParseURI \<lparr>URLs = [''turn:example.com''], Username = ''u'',
      Credential = Some (AnyString ''p''), CredentialType = ICECredentialTypeOauth\<rparr> =
     Some (InvalidAccessError ErrTurnCredentials)"
    by (simp add: validate_def urls_def example_ParseURI_turn Let_def
        ICECredentialTypePassword_def ICECredentialTypeOauth_def)
  have v2: "validate example_ParseURI \<lparr>URLs = [''turn:example.com''], Username = ''u'',
      Credential = Some (AnyOAuthCredential \<lparr>MACKey = ''k'', AccessToken = ''t''\<rparr>),
      CredentialType = ICECredentialTypeOauth\<rparr> = None"
    by (simp add: validate_def urls_def example_ParseURI_turn Let_def
        ICECredentialTypePassword_def ICECredentialTypeOauth_def)
  from validate_credential_type_must_match
     [of "''turn:example.com''"
         "\<lparr>URLs = [''turn:example.com''], Username = ''u'',
           Credential = Some (AnyString ''p''), CredentialType = ICECredentialTypeOauth\<rparr>"
         example_ParseURI _ "AnyString ''p''", OF _ example_ParseURI_turn t]
    n v1 v2
  show ?thesis by simp
qed

text \<open>
  C9: for every ICEServer whose URLs all parse and none of which parses to a
  TURN or TURNS URI (the empty URL list included), validation succeeds,
  whatever the username, the credential and the credential type are.
\<close>

theorem validate_without_turn_urls:
  "\<forall>raw \<in> set (URLs s). \<exists>u. parseURI raw = Inr u \<and> \<not> turn_family u \<Longrightarrow>
   validate parseURI s = None"
proof -
  assume "\<forall>raw \<in> set (URLs s). \<exists>u. parseURI raw = Inr u \<and> \<not> turn_family u"
  then obtain us where "urls_loop parseURI s (URLs s) [] = Inr us"
    using urls_loop_no_turn [of "URLs s" parseURI s "[]"] by blast
  then show ?thesis
    by (simp add: validate_def urls_def)
qed

theorem validate_without_turn_urls_witness:
  "example_ParseURI ''stun:example.com'' =
     Inr \<lparr>Scheme = SchemeTypeSTUN, Host = ''example.com'', uri_Port = 3478,
          uri_Username = [], uri_Password = [], Proto = ProtoTypeUDP\<rparr> \<and>
   \<not> turn_family \<lparr>Scheme = SchemeTypeSTUN, Host = ''example.com'', uri_Port = 3478,
          uri_Username = [], uri_Password = [], Proto = ProtoTypeUDP\<rparr> \<and>
   validate example_ParseURI \<lparr>URLs = [''stun:example.com''], Username = [],
      Credential = Some (AnyOther ''int''), CredentialType = 7\<rparr> = None \<and>
   validate example_ParseURI \<lparr>URLs = [], Username = [], Credential = None,
      CredentialType = ICECredentialTypeOauth\<rparr> = None"
proof -
  have h: "\<forall>raw \<in> set [''stun:example.com''].
      \<exists>u. example_ParseURI raw = Inr u \<and> \<not> turn_family u"
    by (simp add: example_ParseURI_stun turn_family_def)
  from validate_without_turn_urls
     [of "\<lparr>URLs = [''stun:example.com''], Username = [],
      Credential = Some (AnyOther ''int''), CredentialType = 7\<rparr>" example_ParseURI]
    validate_without_turn_urls
     [of "\<lparr>URLs = [], Username = [], Credential = None,
      CredentialType = ICECredentialTypeOauth\<rparr>" example_ParseURI]
    h
  show ?thesis by (simp add: example_ParseURI_stun turn_family_def)
qed

section \<open>Candidates\<close>

text \<open>
  C5: \<open>ToJSON\<close> is total. For every ICECandidate, also one whose \<open>Typ\<close> is
  not a known candidate type, and whatever the ice package does, it returns
  an ICECandidateInit (there is no error result) that carries the candidate's
  \<open>SDPMid\<close> and \<open>SDPMLineIndex\<close>; its \<open>Candidate\<close> is "candidate:" followed by
  the wire form \<open>Marshal\<close> of the converted candidate when \<open>toICE\<close> succeeds,
  and exactly "candidate:" when \<open>toICE\<close> fails, as it does for every unknown
  \<open>Typ\<close>.
\<close>

theorem ToJSON_total:
  "init_SDPMid (ToJSON env c) = Some (SDPMid c) \<and>
   init_SDPMLineIndex (ToJSON env c) = Some (SDPMLineIndex c) \<and>
   (toICE env c = Inr ic \<longrightarrow> Candidate (ToJSON env c) = ''candidate:'' @ ice_Marshal ic) \<and>
   (toICE env c = Inl err \<longrightarrow> Candidate (ToJSON env c) = ''candidate:'') \<and>
   (\<not> known_type (Typ c) \<longrightarrow> Candidate (ToJSON env c) = ''candidate:'')"
  by (simp add: ToJSON_def toICE_unknown_type)

lemma toICE_example_host:
  "toICE example_env example_host =
     Inr (example_candidate CandidateTypeHost ''id1'' ''udp'' ''192.0.2.1'' 5000 1 ''f1''
            2130706431 None)"
  by (simp add: toICE_def example_env_def example_host_def Let_def)

lemma toICE_example_host_no_protocol:
  "toICE example_env (example_host\<lparr>Protocol := 0\<rparr>) =
     Inl (ExternalError ''unable to determine networkType'')"
  by (simp add: toICE_def example_env_def example_host_def Let_def ErrUnknownType_Error_def)

theorem ToJSON_total_witness:
  "toICE example_env example_host =
     Inr (example_candidate CandidateTypeHost ''id1'' ''udp'' ''192.0.2.1'' 5000 1 ''f1''
            2130706431 None) \<and>
   Candidate (ToJSON example_env example_host) = ''candidate:f1 udp 192.0.2.1 typ host'' \<and>
   init_SDPMid (ToJSON example_env example_host) = Some ''0'' \<and>
   toICE example_env (example_host\<lparr>Protocol := 0\<rparr>) =
     Inl (ExternalError ''unable to determine networkType'') \<and>
   Candidate (ToJSON example_env (example_host\<lparr>Protocol := 0\<rparr>)) = ''candidate:'' \<and>
   \<not> known_type (Typ (example_host\<lparr>Typ := 9\<rparr>)) \<and>
   Candidate (ToJSON example_env (example_host\<lparr>Typ := 9\<rparr>)) = ''candidate:''"
proof -
  have m: "ice_Marshal (example_candidate CandidateTypeHost ''id1'' ''udp'' ''192.0.2.1'' 5000 1
      ''f1'' 2130706431 None) = ''f1 udp 192.0.2.1 typ host''"
    by (simp add: example_candidate_def ice_CandidateType_String_def)
  have u: "\<not> known_type (Typ (example_host\<lparr>Typ := 9\<rparr>))"
    by (simp add: known_type_def type_consts)
  have s: "SDPMid example_host = ''0''"
    by (simp add: example_host_def)
  from ToJSON_total [of example_env example_host
      "example_candidate CandidateTypeHost ''id1'' ''udp'' ''192.0.2.1'' 5000 1 ''f1''
         2130706431 None"]
    ToJSON_total [of example_env "example_host\<lparr>Protocol := 0\<rparr>" _
      "ExternalError ''unable to determine networkType''"]
    ToJSON_total [of example_env "example_host\<lparr>Typ := 9\<rparr>"]
    toICE_example_host toICE_example_host_no_protocol m u s
  show ?thesis by simp
qed

text \<open>
  C6 as stated, that the related address and port of a converted candidate
  are set exactly when its type is srflx, prflx or relay, fails in both
  directions: the srflx agent candidate with an empty related address gives a
  srflx candidate whose \<open>RelatedAddress\<close> is empty and whose \<open>RelatedPort\<close> is 0,
  and an agent candidate of type host that reports a related address gives a
  host candidate that carries it.
\<close>

theorem related_address_independent_of_type:
  "snd (newICECandidateFromICE example_env example_srflx_agent ''0'' 0) = None \<and>
   Typ (fst (newICECandidateFromICE example_env example_srflx_agent ''0'' 0)) =
     ICECandidateTypeSrflx \<and>
   RelatedAddress (fst (newICECandidateFromICE example_env example_srflx_agent ''0'' 0)) = [] \<and>
   RelatedPort (fst (newICECandidateFromICE example_env example_srflx_agent ''0'' 0)) = 0 \<and>
   snd (newICECandidateFromICE example_env example_host_agent ''0'' 0) = None \<and>
   Typ (fst (newICECandidateFromICE example_env example_host_agent ''0'' 0)) =
     ICECandidateTypeHost \<and>
   RelatedAddress (fst (newICECandidateFromICE example_env example_host_agent ''0'' 0)) =
     ''10.0.0.1'' \<and>
   RelatedPort (fst (newICECandidateFromICE example_env example_host_agent ''0'' 0)) = 7"
  by (simp add: newICECandidateFromICE_def convertTypeFromICE_def example_env_def
      example_srflx_agent_def example_host_agent_def example_candidate_def
      ice_type_consts type_consts Let_def)

lemma convertTypeFromICE_host:
  "convertTypeFromICE t = (typ, None) \<Longrightarrow> (typ = ICECandidateTypeHost \<longleftrightarrow> t = CandidateTypeHost)"
  by (auto simp: convertTypeFromICE_def ice_type_consts type_consts split: if_splits)

text \<open>
  C6, amended: for every ICECandidate that \<open>newICECandidateFromICE\<close> produces,
  \<open>RelatedAddress\<close> and \<open>RelatedPort\<close> are the agent candidate's related address
  and port (the port cut to 16 bits) when it reports one, and are empty and 0
  when it reports none, whatever the candidate's type. So they are set only
  if the agent candidate reports a related address, and they are absent for
  every host candidate whose agent candidate reports none.
\<close>

theorem related_address_copied:
  "newICECandidateFromICE env candidate sdpMid sdpMLineIndex = (c, None) \<Longrightarrow>
   (case ice_RelatedAddress candidate of
      None \<Rightarrow> RelatedAddress c = [] \<and> RelatedPort c = 0
    | Some ra \<Rightarrow> RelatedAddress c = rel_Address ra \<and> RelatedPort c = word_of_int (rel_Port ra)) \<and>
   (RelatedAddress c \<noteq> [] \<or> RelatedPort c \<noteq> 0 \<longrightarrow> ice_RelatedAddress candidate \<noteq> None) \<and>
   (Typ c = ICECandidateTypeHost \<longleftrightarrow> ice_Type candidate = CandidateTypeHost) \<and>
   (Typ c = ICECandidateTypeHost \<and> ice_RelatedAddress candidate = None \<longrightarrow>
      RelatedAddress c = [] \<and> RelatedPort c = 0)"
proof -
  assume a: "newICECandidateFromICE env candidate sdpMid sdpMLineIndex = (c, None)"
  then obtain ty where t: "convertTypeFromICE (ice_Type candidate) = (ty, None)"
    by (auto simp: newICECandidateFromICE_def split: prod.splits option.splits)
  with a have ty: "Typ c = ty"
    by (auto simp: newICECandidateFromICE_def Let_def split: prod.splits option.splits)
  from a have r: "(case ice_RelatedAddress candidate of
      None \<Rightarrow> RelatedAddress c = [] \<and> RelatedPort c = 0
    | Some ra \<Rightarrow> RelatedAddress c = rel_Address ra \<and> RelatedPort c = word_of_int (rel_Port ra))"
    by (auto simp: newICECandidateFromICE_def Let_def split: prod.splits option.splits)
  from convertTypeFromICE_host [OF t] ty
  have h: "Typ c = ICECandidateTypeHost \<longleftrightarrow> ice_Type candidate = CandidateTypeHost"
    by simp
  from r h show ?thesis
    by (auto split: option.splits)
qed

theorem related_address_copied_witness:
  "newICECandidateFromICE example_env
     (example_candidate CandidateTypeHost ''id1'' ''udp'' ''192.0.2.1'' 5000 1 ''f1''
        2130706431 None) ''0'' 0 = (example_host, None) \<and>
   Typ example_host = ICECandidateTypeHost \<and>
   RelatedAddress example_host = [] \<and> RelatedPort example_host = 0 \<and>
   newICECandidateFromICE example_env example_host_agent ''0'' 0 =
     (fst (newICECandidateFromICE example_env example_host_agent ''0'' 0), None) \<and>
   ice_RelatedAddress example_host_agent = Some \<lparr>rel_Address = ''10.0.0.1'', rel_Port = 7\<rparr> \<and>
   RelatedAddress (fst (newICECandidateFromICE example_env example_host_agent ''0'' 0)) =
     ''10.0.0.1'' \<and>
   RelatedPort (fst (newICECandidateFromICE example_env example_host_agent ''0'' 0)) = 7"
proof -
  have h: "newICECandidateFromICE example_env
     (example_candidate CandidateTypeHost ''id1'' ''udp'' ''192.0.2.1'' 5000 1 ''f1''
        2130706431 None) ''0'' 0 = (example_host, None)"
    by (simp add: newICECandidateFromICE_def convertTypeFromICE_def example_env_def
        example_candidate_def example_host_def ice_type_consts type_consts)
  have g: "newICECandidateFromICE example_env example_host_agent ''0'' 0 =
     (fst (newICECandidateFromICE example_env example_host_agent ''0'' 0), None)"
    by (simp add: newICECandidateFromICE_def convertTypeFromICE_def example_env_def
        example_candidate_def example_host_agent_def ice_type_consts type_consts)
  have n: "ice_RelatedAddress (example_candidate CandidateTypeHost ''id1'' ''udp'' ''192.0.2.1''
      5000 1 ''f1'' 2130706431 None) = None"
    "ice_RelatedAddress example_host_agent = Some \<lparr>rel_Address = ''10.0.0.1'', rel_Port = 7\<rparr>"
    by (simp_all add: example_candidate_def example_host_agent_def)
  have t: "Typ example_host = ICECandidateTypeHost"
    by (simp add: example_host_def)
  from related_address_copied [OF h] related_address_copied [OF g] h g n t
  show ?thesis by simp
qed

section \<open>Transceiver slots and sender start-up\<close>

lemma find_slot_Some:
  "find_slot P xs = Some i \<Longrightarrow> i < length xs \<and> P (xs ! i) \<and> (\<forall>j<i. \<not> P (xs ! j))"
proof (induction xs arbitrary: i)
  case Nil
  then show ?case by simp
next
  case (Cons x xs)
  show ?case
  proof (cases "P x")
    case True
    with Cons.prems show ?thesis by simp
  next
    case False
    with Cons.prems obtain i' where i': "find_slot P xs = Some i'" "i = Suc i'"
      by (auto split: option.splits)
    from Cons.IH [OF i'(1)] False i'(2) show ?thesis
      by (auto simp: less_Suc_eq_0_disj)
  qed
qed

lemma find_slot_None: "find_slot P xs = None \<longleftrightarrow> (\<forall>x\<in>set xs. \<not> P x)"
  by (induction xs) (auto split: option.splits)

lemma find_slot_first:
  assumes "i < length xs" "P (xs ! i)" "\<forall>j<i. \<not> P (xs ! j)"
  shows "find_slot P xs = Some i"
proof (cases "find_slot P xs")
  case None
  with assms(1,2) show ?thesis
    by (auto simp: find_slot_None)
next
  case (Some i')
  from find_slot_Some [OF Some] assms have "\<not> i' < i" "\<not> i < i'"
    by auto
  with Some show ?thesis by simp
qed

text \<open>What one call of createOrReuse does, in its two cases.\<close>

lemma createOrReuse_cases:
  assumes "createOrReuse permits k d s reg = (r, l)"
  shows "(l < length reg \<and> reusable permits k (reg ! l) \<and>
            (\<forall>j<l. \<not> reusable permits k (reg ! j)) \<and>
            r = reg[l := (reg ! l)\<lparr>direction := d, sender := Some s\<rparr>]) \<or>
         ((\<forall>t\<in>set reg. \<not> reusable permits k t) \<and> l = length reg \<and>
            r = reg @ [\<lparr>mid = None, kind = k, direction = d, sender = Some s\<rparr>])"
proof (cases "find_slot (reusable permits k) reg")
  case None
  with assms show ?thesis
    by (auto simp: createOrReuse_def find_slot_None)
next
  case (Some i)
  from find_slot_Some [OF Some] Some assms show ?thesis
    by (auto simp: createOrReuse_def)
qed

lemma createOrReuse_slot:
  assumes "createOrReuse permits k d s reg = (r, l)"
  shows "l < length r \<and> kind (r ! l) = k \<and> direction (r ! l) = d \<and> sender (r ! l) = Some s \<and>
         (\<forall>j<l. j < length reg \<and> r ! j = reg ! j \<and> \<not> reusable permits k (reg ! j)) \<and>
         mid (r ! l) = (if l < length reg then mid (reg ! l) else None)"
  using createOrReuse_cases [OF assms]
  by (auto simp: reusable_def nth_append)

lemma map_mid_detach: "map mid (xs[n := (xs ! n)\<lparr>sender := s\<rparr>]) = map mid xs"
proof (rule nth_equalityI)
  show "length (map mid (xs[n := (xs ! n)\<lparr>sender := s\<rparr>])) = length (map mid xs)"
    by simp
next
  fix i
  assume "i < length (map mid (xs[n := (xs ! n)\<lparr>sender := s\<rparr>]))"
  then show "map mid (xs[n := (xs ! n)\<lparr>sender := s\<rparr>]) ! i = map mid xs ! i"
    by (cases "i = n") auto
qed

lemma map_mid_attach:
  "map mid (xs[n := (xs ! n)\<lparr>direction := d, sender := s\<rparr>]) = map mid xs"
proof (rule nth_equalityI)
  show "length (map mid (xs[n := (xs ! n)\<lparr>direction := d, sender := s\<rparr>])) =
        length (map mid xs)"
    by simp
next
  fix i
  assume "i < length (map mid (xs[n := (xs ! n)\<lparr>direction := d, sender := s\<rparr>]))"
  then show "map mid (xs[n := (xs ! n)\<lparr>direction := d, sender := s\<rparr>]) ! i = map mid xs ! i"
    by (cases "i = n") auto
qed

lemma removeTrack_after_add:
  assumes fresh: "\<forall>t\<in>set reg. sender t \<noteq> Some a"
    and add: "createOrReuse permits k d a reg = (r1, i)"
  shows "removeTrack a r1 = Inr (r1[i := (r1 ! i)\<lparr>sender := None\<rparr>])"
proof -
  from createOrReuse_slot [OF add] fresh
  have "i < length r1" "sender (r1 ! i) = Some a" "\<forall>j<i. sender (r1 ! j) \<noteq> Some a"
    by auto
  then have "find_slot (\<lambda>t. sender t = Some a) r1 = Some i"
    by (intro find_slot_first) auto
  then show ?thesis
    by (simp add: removeTrack_def)
qed

lemma add_after_remove:
  assumes pd: "permits d"
    and add: "createOrReuse permits k d a reg = (r1, i)"
  shows "createOrReuse permits k d' b (r1[i := (r1 ! i)\<lparr>sender := None\<rparr>]) =
           (r1[i := (r1 ! i)\<lparr>direction := d', sender := Some b\<rparr>], i)"
proof -
  let ?r2 = "r1[i := (r1 ! i)\<lparr>sender := None\<rparr>]"
  from createOrReuse_slot [OF add] pd
  have "i < length ?r2" "reusable permits k (?r2 ! i)"
    "\<forall>j<i. \<not> reusable permits k (?r2 ! j)"
    by (auto simp: reusable_def)
  then have "find_slot (reusable permits k) ?r2 = Some i"
    by (intro find_slot_first) auto
  moreover from createOrReuse_slot [OF add] have "i < length r1"
    by simp
  ultimately show ?thesis
    by (simp add: createOrReuse_def)
qed

lemma slot_reuse_scenario:
  assumes fresh: "\<forall>t\<in>set reg. sender t \<noteq> Some a"
    and pd: "permits dA"
    and add: "createOrReuse permits k dA a reg = (r1, i)"
  shows "\<exists>r2. removeTrack a r1 = Inr r2 \<and> length r2 = length r1 \<and> map mid r2 = map mid r1 \<and>
           (\<forall>r3 j. createOrReuse permits k dB b r2 = (r3, j) \<longrightarrow>
              j = i \<and> j < length r3 \<and> length r3 = length r1 \<and>
              mid (r3 ! j) = mid (r1 ! i) \<and> sender (r3 ! j) = Some b \<and>
              (\<forall>r4 l. createOrReuse permits k dC c r3 = (r4, l) \<longrightarrow>
                 l \<noteq> j \<and> take (length r3) (map mid r4) = map mid r3 \<and>
                 ((\<forall>t\<in>set r3. \<not> reusable permits k t) \<longrightarrow>
                    l = length r3 \<and>
                    r4 = r3 @ [\<lparr>mid = None, kind = k, direction = dC, sender = Some c\<rparr>]) \<and>
                 ((\<exists>t\<in>set r3. reusable permits k t) \<longrightarrow> length r4 = length r3)))"
proof -
  let ?r2 = "r1[i := (r1 ! i)\<lparr>sender := None\<rparr>]"
  let ?r3 = "r1[i := (r1 ! i)\<lparr>direction := dB, sender := Some b\<rparr>]"
  from createOrReuse_slot [OF add] have i: "i < length r1"
    by simp
  have rm: "removeTrack a r1 = Inr ?r2"
    by (rule removeTrack_after_add [OF fresh add])
  have mids2: "map mid ?r2 = map mid r1"
    by (rule map_mid_detach)
  have third: "l \<noteq> i \<and> take (length ?r3) (map mid r4) = map mid ?r3 \<and>
                 ((\<forall>t\<in>set ?r3. \<not> reusable permits k t) \<longrightarrow>
                    l = length ?r3 \<and>
                    r4 = ?r3 @ [\<lparr>mid = None, kind = k, direction = dC, sender = Some c\<rparr>]) \<and>
                 ((\<exists>t\<in>set ?r3. reusable permits k t) \<longrightarrow> length r4 = length ?r3)"
    if c: "createOrReuse permits k dC c ?r3 = (r4, l)" for r4 l
  proof -
    from createOrReuse_cases [OF c] show ?thesis
    proof (elim disjE conjE)
      assume l: "l < length ?r3" "reusable permits k (?r3 ! l)"
        and r4: "r4 = ?r3[l := (?r3 ! l)\<lparr>direction := dC, sender := Some c\<rparr>]"
      from l i have "l \<noteq> i"
        by (auto simp: reusable_def)
      moreover from l have "\<exists>t\<in>set ?r3. reusable permits k t"
        by (metis nth_mem)
      moreover from r4 have "map mid r4 = map mid ?r3" "length r4 = length ?r3"
        by (simp_all only: map_mid_attach length_list_update)
      ultimately show ?thesis
        by auto
    next
      assume n: "\<forall>t\<in>set ?r3. \<not> reusable permits k t" "l = length ?r3"
        and r4: "r4 = ?r3 @ [\<lparr>mid = None, kind = k, direction = dC, sender = Some c\<rparr>]"
      with i show ?thesis
        by auto
    qed
  qed
  have second: "j = i \<and> j < length r3 \<and> length r3 = length r1 \<and>
              mid (r3 ! j) = mid (r1 ! i) \<and> sender (r3 ! j) = Some b \<and> r3 = ?r3"
    if b: "createOrReuse permits k dB b ?r2 = (r3, j)" for r3 j
    using b add_after_remove [OF pd add, of dB b] i by auto
  have rest: "\<forall>r3 j. createOrReuse permits k dB b ?r2 = (r3, j) \<longrightarrow>
              j = i \<and> j < length r3 \<and> length r3 = length r1 \<and>
              mid (r3 ! j) = mid (r1 ! i) \<and> sender (r3 ! j) = Some b \<and>
              (\<forall>r4 l. createOrReuse permits k dC c r3 = (r4, l) \<longrightarrow>
                 l \<noteq> j \<and> take (length r3) (map mid r4) = map mid r3 \<and>
                 ((\<forall>t\<in>set r3. \<not> reusable permits k t) \<longrightarrow>
                    l = length r3 \<and>
                    r4 = r3 @ [\<lparr>mid = None, kind = k, direction = dC, sender = Some c\<rparr>]) \<and>
                 ((\<exists>t\<in>set r3. reusable permits k t) \<longrightarrow> length r4 = length r3))"
  proof (intro allI impI)
    fix r3 j
    assume b: "createOrReuse permits k dB b ?r2 = (r3, j)"
    from second [OF b] have e: "r3 = ?r3" "j = i"
      by simp_all
    from second [OF b] third show "j = i \<and> j < length r3 \<and> length r3 = length r1 \<and>
              mid (r3 ! j) = mid (r1 ! i) \<and> sender (r3 ! j) = Some b \<and>
              (\<forall>r4 l. createOrReuse permits k dC c r3 = (r4, l) \<longrightarrow>
                 l \<noteq> j \<and> take (length r3) (map mid r4) = map mid r3 \<and>
                 ((\<forall>t\<in>set r3. \<not> reusable permits k t) \<longrightarrow>
                    l = length r3 \<and>
                    r4 = r3 @ [\<lparr>mid = None, kind = k, direction = dC, sender = Some c\<rparr>]) \<and>
                 ((\<exists>t\<in>set r3. reusable permits k t) \<longrightarrow> length r4 = length r3))"
      unfolding e by blast
  qed
  have "length ?r2 = length r1"
    by simp
  with rm mids2 rest show ?thesis
    by blast
qed






section \<open>Mid slot reuse\<close>

text \<open>
  C7 as stated, that a further track added while the slot is occupied gets a
  new transceiver with a new mid, fails: a mid is assigned only once
  negotiated. Starting from the empty registry, add A, remove it, add B and
  add C: C is appended in a new slot, and its mid equals B's, both being
  unassigned.
\<close>

theorem third_track_mid_not_new:
  "createOrReuse includes_send RTPCodecTypeVideo RTPTransceiverDirectionSendrecv
     (example_sender ''A'') [] = ([video_slot None (Some (example_sender ''A''))], 0) \<and>
   removeTrack (example_sender ''A'') [video_slot None (Some (example_sender ''A''))] =
     Inr [video_slot None None] \<and>
   createOrReuse includes_send RTPCodecTypeVideo RTPTransceiverDirectionSendrecv
     (example_sender ''B'') [video_slot None None] =
     ([video_slot None (Some (example_sender ''B''))], 0) \<and>
   createOrReuse includes_send RTPCodecTypeVideo RTPTransceiverDirectionSendrecv
     (example_sender ''C'') [video_slot None (Some (example_sender ''B''))] =
     ([video_slot None (Some (example_sender ''B'')),
       video_slot None (Some (example_sender ''C''))], 1) \<and>
   mid ([video_slot None (Some (example_sender ''B'')),
         video_slot None (Some (example_sender ''C''))] ! 1) =
   mid ([video_slot None (Some (example_sender ''B'')),
         video_slot None (Some (example_sender ''C''))] ! 0)"
  by (simp add: createOrReuse_def removeTrack_def reusable_def includes_send_def
      video_slot_def example_sender_def)

lemma add_track_rule:
  "(createOrReuse permits k d s reg0 = (r0, l0) \<longrightarrow>
      ((\<exists>t\<in>set reg0. reusable permits k t) \<longrightarrow>
         l0 < length reg0 \<and> reusable permits k (reg0 ! l0) \<and>
         (\<forall>j<l0. \<not> reusable permits k (reg0 ! j)) \<and>
         r0 = reg0[l0 := (reg0 ! l0)\<lparr>direction := d, sender := Some s\<rparr>]) \<and>
      ((\<forall>t\<in>set reg0. \<not> reusable permits k t) \<longrightarrow>
         l0 = length reg0 \<and>
         r0 = reg0 @ [\<lparr>mid = None, kind = k, direction = d, sender = Some s\<rparr>])) \<and>
   ((\<forall>t\<in>set reg. sender t \<noteq> Some a) \<and> permits dA \<and>
    createOrReuse permits k dA a reg = (r1, i) \<longrightarrow>
      (\<exists>r2. removeTrack a r1 = Inr r2 \<and> length r2 = length r1 \<and> map mid r2 = map mid r1 \<and>
         (\<forall>r3 j. createOrReuse permits k dB b r2 = (r3, j) \<longrightarrow>
            j = i \<and> j < length r3 \<and> length r3 = length r1 \<and>
            mid (r3 ! j) = mid (r1 ! i) \<and> sender (r3 ! j) = Some b \<and>
            (\<forall>r4 l. createOrReuse permits k dC c r3 = (r4, l) \<longrightarrow>
               l \<noteq> j \<and> take (length r3) (map mid r4) = map mid r3 \<and>
               ((\<forall>t\<in>set r3. \<not> reusable permits k t) \<longrightarrow>
                  l = length r3 \<and>
                  r4 = r3 @ [\<lparr>mid = None, kind = k, direction = dC, sender = Some c\<rparr>]) \<and>
               ((\<exists>t\<in>set r3. reusable permits k t) \<longrightarrow> length r4 = length r3)))))"
proof -
  have p1: "l0 < length reg0 \<and> reusable permits k (reg0 ! l0) \<and>
         (\<forall>j<l0. \<not> reusable permits k (reg0 ! j)) \<and>
         r0 = reg0[l0 := (reg0 ! l0)\<lparr>direction := d, sender := Some s\<rparr>]"
    if c: "createOrReuse permits k d s reg0 = (r0, l0)"
      and e: "\<exists>t\<in>set reg0. reusable permits k t"
    using createOrReuse_cases [OF c] e by blast
  have p2: "l0 = length reg0 \<and>
         r0 = reg0 @ [\<lparr>mid = None, kind = k, direction = d, sender = Some s\<rparr>]"
    if c: "createOrReuse permits k d s reg0 = (r0, l0)"
      and n: "\<forall>t\<in>set reg0. \<not> reusable permits k t"
    using createOrReuse_cases [OF c] n by (metis nth_mem)
  have p3: "\<exists>r2. removeTrack a r1 = Inr r2 \<and> length r2 = length r1 \<and> map mid r2 = map mid r1 \<and>
         (\<forall>r3 j. createOrReuse permits k dB b r2 = (r3, j) \<longrightarrow>
            j = i \<and> j < length r3 \<and> length r3 = length r1 \<and>
            mid (r3 ! j) = mid (r1 ! i) \<and> sender (r3 ! j) = Some b \<and>
            (\<forall>r4 l. createOrReuse permits k dC c r3 = (r4, l) \<longrightarrow>
               l \<noteq> j \<and> take (length r3) (map mid r4) = map mid r3 \<and>
               ((\<forall>t\<in>set r3. \<not> reusable permits k t) \<longrightarrow>
                  l = length r3 \<and>
                  r4 = r3 @ [\<lparr>mid = None, kind = k, direction = dC, sender = Some c\<rparr>]) \<and>
               ((\<exists>t\<in>set r3. reusable permits k t) \<longrightarrow> length r4 = length r3)))"
    if "(\<forall>t\<in>set reg. sender t \<noteq> Some a) \<and> permits dA \<and>
      createOrReuse permits k dA a reg = (r1, i)"
    using that slot_reuse_scenario [of reg a permits dA k r1 i dB b dC c] by blast
  show ?thesis
  proof (rule conjI)
    show "createOrReuse permits k d s reg0 = (r0, l0) \<longrightarrow>
      ((\<exists>t\<in>set reg0. reusable permits k t) \<longrightarrow>
         l0 < length reg0 \<and> reusable permits k (reg0 ! l0) \<and>
         (\<forall>j<l0. \<not> reusable permits k (reg0 ! j)) \<and>
         r0 = reg0[l0 := (reg0 ! l0)\<lparr>direction := d, sender := Some s\<rparr>]) \<and>
      ((\<forall>t\<in>set reg0. \<not> reusable permits k t) \<longrightarrow>
         l0 = length reg0 \<and>
         r0 = reg0 @ [\<lparr>mid = None, kind = k, direction = d, sender = Some s\<rparr>])"
      using p1 p2 by blast
  next
    from p3 show "(\<forall>t\<in>set reg. sender t \<noteq> Some a) \<and> permits dA \<and>
      createOrReuse permits k dA a reg = (r1, i) \<longrightarrow>
      (\<exists>r2. removeTrack a r1 = Inr r2 \<and> length r2 = length r1 \<and> map mid r2 = map mid r1 \<and>
         (\<forall>r3 j. createOrReuse permits k dB b r2 = (r3, j) \<longrightarrow>
            j = i \<and> j < length r3 \<and> length r3 = length r1 \<and>
            mid (r3 ! j) = mid (r1 ! i) \<and> sender (r3 ! j) = Some b \<and>
            (\<forall>r4 l. createOrReuse permits k dC c r3 = (r4, l) \<longrightarrow>
               l \<noteq> j \<and> take (length r3) (map mid r4) = map mid r3 \<and>
               ((\<forall>t\<in>set r3. \<not> reusable permits k t) \<longrightarrow>
                  l = length r3 \<and>
                  r4 = r3 @ [\<lparr>mid = None, kind = k, direction = dC, sender = Some c\<rparr>]) \<and>
               ((\<exists>t\<in>set r3. reusable permits k t) \<longrightarrow> length r4 = length r3))))"
      by (rule impI)
  qed
qed

text \<open>
  C7, amended: mid slot reuse. Add-track picks the first existing transceiver
  of matching kind with an empty sender slot and a direction that permits
  sending, reassigns its direction and attaches the sender; it appends a new
  transceiver, whose mid is not assigned yet, exactly when there is none.
  Let track A (a sender no transceiver holds yet) be added with a direction
  that permits sending, into slot \<open>i\<close>. Removing A's sender succeeds and changes
  neither the number of transceivers nor any mid. Adding a track B of the same
  kind then lands in the same slot \<open>i\<close>: the transceiver count does not grow
  and B's mid is A's mid. A further track C of the same kind, added while B
  holds the slot, never shares that slot and leaves every existing mid as it
  is; when no other transceiver can be reused it is appended in a new slot
  whose mid is unassigned until negotiation.
\<close>

theorem add_remove_add_reuses_slot:
  "(createOrReuse permits k d s reg0 = (r0, l0) \<longrightarrow>
      ((\<exists>t\<in>set reg0. kind t = k \<and> sender t = None \<and> permits (direction t)) \<longrightarrow>
         l0 < length reg0 \<and>
         (kind (reg0 ! l0) = k \<and> sender (reg0 ! l0) = None \<and> permits (direction (reg0 ! l0))) \<and>
         (\<forall>j<l0. \<not> (kind (reg0 ! j) = k \<and> sender (reg0 ! j) = None \<and>
                      permits (direction (reg0 ! j)))) \<and>
         r0 = reg0[l0 := (reg0 ! l0)\<lparr>direction := d, sender := Some s\<rparr>]) \<and>
      ((\<forall>t\<in>set reg0. \<not> (kind t = k \<and> sender t = None \<and> permits (direction t))) \<longrightarrow>
         l0 = length reg0 \<and>
         r0 = reg0 @ [\<lparr>mid = None, kind = k, direction = d, sender = Some s\<rparr>])) \<and>
   ((\<forall>t\<in>set reg. sender t \<noteq> Some a) \<and> permits dA \<and>
    createOrReuse permits k dA a reg = (r1, i) \<longrightarrow>
      (\<exists>r2. removeTrack a r1 = Inr r2 \<and> length r2 = length r1 \<and> map mid r2 = map mid r1 \<and>
         (\<forall>r3 j. createOrReuse permits k dB b r2 = (r3, j) \<longrightarrow>
            j = i \<and> j < length r3 \<and> length r3 = length r1 \<and>
            mid (r3 ! j) = mid (r1 ! i) \<and> sender (r3 ! j) = Some b \<and>
            (\<forall>r4 l. createOrReuse permits k dC c r3 = (r4, l) \<longrightarrow>
               l \<noteq> j \<and> take (length r3) (map mid r4) = map mid r3 \<and>
               ((\<forall>t\<in>set r3. \<not> (kind t = k \<and> sender t = None \<and> permits (direction t))) \<longrightarrow>
                  l = length r3 \<and>
                  r4 = r3 @ [\<lparr>mid = None, kind = k, direction = dC, sender = Some c\<rparr>]) \<and>
               ((\<exists>t\<in>set r3. kind t = k \<and> sender t = None \<and> permits (direction t)) \<longrightarrow>
                  length r4 = length r3)))))"
  by (rule add_track_rule [unfolded reusable_def])

theorem add_remove_add_reuses_slot_witness:
  "createOrReuse includes_send RTPCodecTypeVideo RTPTransceiverDirectionSendrecv
     (example_sender ''A'') two_free_slots =
     ([video_slot (Some ''0'') (Some (example_sender ''A'')), video_slot (Some ''1'') None], 0) \<and>
   createOrReuse includes_send RTPCodecTypeVideo RTPTransceiverDirectionSendrecv
     (example_sender ''A'') (example_with None) = (example_with (Some (example_sender ''A'')), 1) \<and>
   removeTrack (example_sender ''A'') (example_with (Some (example_sender ''A''))) =
     Inr (example_with None) \<and>
   createOrReuse includes_send RTPCodecTypeVideo RTPTransceiverDirectionSendrecv
     (example_sender ''B'') (example_with None) = (example_with (Some (example_sender ''B'')), 1) \<and>
   mid (example_with (Some (example_sender ''B'')) ! 1) =
     mid (example_with (Some (example_sender ''A'')) ! 1) \<and>
   createOrReuse includes_send RTPCodecTypeVideo RTPTransceiverDirectionSendrecv
     (example_sender ''C'') (example_with (Some (example_sender ''B''))) =
     (example_with (Some (example_sender ''B'')) @
        [\<lparr>mid = None, kind = RTPCodecTypeVideo, direction = RTPTransceiverDirectionSendrecv,
          sender = Some (example_sender ''C'')\<rparr>], 2) \<and>
   createOrReuse every_direction RTPCodecTypeVideo RTPTransceiverDirectionSendrecv
     (example_sender ''track1'') test_registry =
     ([video_slot None (Some (example_sender ''track1''))], 0) \<and>
   removeTrack (example_sender ''track1'') [video_slot None (Some (example_sender ''track1''))] =
     Inr [video_slot None None] \<and>
   createOrReuse every_direction RTPCodecTypeVideo RTPTransceiverDirectionSendrecv
     (example_sender ''track2'') [video_slot None None] =
     ([video_slot None (Some (example_sender ''track2''))], 0) \<and>
   createOrReuse every_direction RTPCodecTypeVideo RTPTransceiverDirectionSendrecv
     (example_sender ''track3'') [video_slot None (Some (example_sender ''track2''))] =
     ([video_slot None (Some (example_sender ''track2'')),
       video_slot None (Some (example_sender ''track3''))], 1)"
proof -
  let ?A = "example_sender ''A''" and ?B = "example_sender ''B''" and ?C = "example_sender ''C''"
  let ?V = RTPCodecTypeVideo and ?SR = RTPTransceiverDirectionSendrecv
  have free: "\<exists>t\<in>set two_free_slots. reusable includes_send ?V t"
    by (simp add: two_free_slots_def video_slot_def reusable_def includes_send_def)
  obtain r0 l0 where c0: "createOrReuse includes_send ?V ?SR ?A two_free_slots = (r0, l0)"
    by (cases "createOrReuse includes_send ?V ?SR ?A two_free_slots") blast
  have fresh: "\<forall>t\<in>set (example_with None). sender t \<noteq> Some ?A"
    by (simp add: example_with_def example_sender_def)
  have pd: "includes_send ?SR"
    by (simp add: includes_send_def)
  have add: "createOrReuse includes_send ?V ?SR ?A (example_with None) =
      (example_with (Some ?A), 1)"
    by (simp add: createOrReuse_def reusable_def example_with_def includes_send_def)
  note inst = add_remove_add_reuses_slot [where permits = includes_send and k = ?V and d = ?SR and s = ?A
      and ?reg0.0 = two_free_slots and ?r0.0 = r0 and ?l0.0 = l0
      and reg = "example_with None" and a = ?A and dA = ?SR
      and ?r1.0 = "example_with (Some ?A)" and i = 1 and dB = ?SR and b = ?B
      and dC = ?SR and c = ?C, folded reusable_def]
  from inst c0 free have first: "l0 < length two_free_slots"
    "\<forall>j<l0. \<not> reusable includes_send ?V (two_free_slots ! j)"
    "r0 = two_free_slots[l0 := (two_free_slots ! l0)\<lparr>direction := ?SR, sender := Some ?A\<rparr>]"
    by blast+
  have "reusable includes_send ?V (two_free_slots ! 0)"
    by (simp add: two_free_slots_def video_slot_def reusable_def includes_send_def)
  with first(2) have l0: "l0 = 0"
    by (cases l0) auto
  with first(3) c0 have ff: "createOrReuse includes_send ?V ?SR ?A two_free_slots =
     ([video_slot (Some ''0'') (Some ?A), video_slot (Some ''1'') None], 0)"
    by (simp add: two_free_slots_def video_slot_def)
  have rm: "removeTrack ?A (example_with (Some ?A)) = Inr (example_with None)"
    by (simp add: removeTrack_def example_with_def example_sender_def)
  have addB: "createOrReuse includes_send ?V ?SR ?B (example_with None) =
      (example_with (Some ?B), 1)"
    by (simp add: createOrReuse_def reusable_def example_with_def includes_send_def)
  have none: "\<forall>t\<in>set (example_with (Some ?B)). \<not> reusable includes_send ?V t"
    by (simp add: reusable_def example_with_def)
  from inst fresh pd add
  obtain r2 where r2: "removeTrack ?A (example_with (Some ?A)) = Inr r2"
    and rest: "\<forall>r3 j. createOrReuse includes_send ?V ?SR ?B r2 = (r3, j) \<longrightarrow>
        mid (r3 ! j) = mid (example_with (Some ?A) ! 1) \<and>
        (\<forall>r4 l. createOrReuse includes_send ?V ?SR ?C r3 = (r4, l) \<longrightarrow>
           ((\<forall>t\<in>set r3. \<not> reusable includes_send ?V t) \<longrightarrow>
              l = length r3 \<and>
              r4 = r3 @ [\<lparr>mid = None, kind = ?V, direction = ?SR, sender = Some ?C\<rparr>]))"
    by blast
  from r2 rm have e: "r2 = example_with None"
    by simp
  from rest [unfolded e] addB
  have m: "mid (example_with (Some ?B) ! 1) = mid (example_with (Some ?A) ! 1)"
    and third: "\<forall>r4 l. createOrReuse includes_send ?V ?SR ?C (example_with (Some ?B)) = (r4, l) \<longrightarrow>
        l = length (example_with (Some ?B)) \<and>
        r4 = example_with (Some ?B) @
          [\<lparr>mid = None, kind = ?V, direction = ?SR, sender = Some ?C\<rparr>]"
    using none by blast+
  have len: "length (example_with (Some ?B)) = 2"
    by (simp add: example_with_def)
  obtain r4 l where c: "createOrReuse includes_send ?V ?SR ?C (example_with (Some ?B)) = (r4, l)"
    by (cases "createOrReuse includes_send ?V ?SR ?C (example_with (Some ?B))") blast
  with third len have addC: "createOrReuse includes_send ?V ?SR ?C (example_with (Some ?B)) =
      (example_with (Some ?B) @
          [\<lparr>mid = None, kind = ?V, direction = ?SR, sender = Some ?C\<rparr>], 2)"
    by simp
  have test: "createOrReuse every_direction ?V ?SR (example_sender ''track1'') test_registry =
     ([video_slot None (Some (example_sender ''track1''))], 0)"
    "removeTrack (example_sender ''track1'') [video_slot None (Some (example_sender ''track1''))] =
     Inr [video_slot None None]"
    "createOrReuse every_direction ?V ?SR (example_sender ''track2'') [video_slot None None] =
     ([video_slot None (Some (example_sender ''track2''))], 0)"
    "createOrReuse every_direction ?V ?SR (example_sender ''track3'')
       [video_slot None (Some (example_sender ''track2''))] =
     ([video_slot None (Some (example_sender ''track2'')),
       video_slot None (Some (example_sender ''track3''))], 1)"
    by (simp_all add: createOrReuse_def removeTrack_def reusable_def test_registry_def
        every_direction_def video_slot_def example_sender_def)
  from ff add rm addB m addC test show ?thesis
    by simp
qed

text \<open>
  With \<open>includes_send\<close> for "permits sending" the first add-track of
  \<^verbatim>\<open>TestAddTransceiverAddTrack_Reuse\<close> would append instead of reusing the
  recvonly transceiver, where the test expects one transceiver.
\<close>

lemma includes_send_fails_test_first_step:
  "length (fst (createOrReuse includes_send RTPCodecTypeVideo RTPTransceiverDirectionSendrecv
     (example_sender ''track1'') test_registry)) = 2"
  by (simp add: createOrReuse_def reusable_def test_registry_def includes_send_def)

lemma convertTypeFromICE_known:
  "known_type t \<Longrightarrow> convertTypeFromICE (word_of_int t) = (t, None)"
  by (auto simp: known_type_def convertTypeFromICE_def type_consts ice_type_consts)

section \<open>Decimal numbers and fields\<close>

lemma digit_cases: "d < 10 \<Longrightarrow> d \<in> {0, 1, 2, 3, 4, 5, 6, 7, 8, 9 :: nat}"
  by auto

lemma digit_value_char: "d < 10 \<Longrightarrow> digit_value (digit_char d) = Some d"
  by (drule digit_cases) (auto simp: digit_value_def digit_char_def)

lemma digit_char_not_space: "d < 10 \<Longrightarrow> digit_char d \<noteq> CHR '' ''"
  by (drule digit_cases) (auto simp: digit_char_def)

lemma parse_digits_append:
  "parse_digits acc (xs @ ys) =
     (case parse_digits acc xs of None \<Rightarrow> None | Some a \<Rightarrow> parse_digits a ys)"
  by (induction xs arbitrary: acc) (auto split: option.splits)

lemma parse_digits_show: "parse_digits 0 (show_nat n) = Some n"
proof (induction n rule: show_nat.induct)
  case (1 n)
  show ?case
  proof (cases "n < 10")
    case True
    then show ?thesis
      by (simp add: show_nat.simps [of n] digit_value_char)
  next
    case False
    with "1" have "parse_digits 0 (show_nat (n div 10)) = Some (n div 10)"
      by simp
    with False show ?thesis
      by (simp add: show_nat.simps [of n] parse_digits_append digit_value_char)
  qed
qed

lemma show_nat_not_empty: "show_nat n \<noteq> []"
  by (simp add: show_nat.simps [of n])

lemma parse_nat_show: "parse_nat (show_nat n) = Some n"
  by (simp add: parse_nat_def show_nat_not_empty parse_digits_show)

lemma show_nat_no_space: "CHR '' '' \<notin> set (show_nat n)"
proof (induction n rule: show_nat.induct)
  case (1 n)
  show ?case
  proof (cases "n < 10")
    case True
    then show ?thesis
      by (simp add: show_nat.simps [of n] digit_char_not_space [symmetric])
  next
    case False
    with "1" have "CHR '' '' \<notin> set (show_nat (n div 10))"
      by simp
    with False show ?thesis
      using digit_char_not_space [of "n mod 10"]
      by (auto simp: show_nat.simps [of n])
  qed
qed

lemma split_on_no_sep: "c \<notin> set t \<Longrightarrow> split_on c t = [t]"
  by (induction t) auto

lemma split_on_append:
  "c \<notin> set t \<Longrightarrow> split_on c (t @ c # rest) = t # split_on c rest"
  by (induction t) auto

lemma split_on_join_cons:
  "c \<notin> set t \<Longrightarrow> ts \<noteq> [] \<Longrightarrow>
   split_on c (join_with c (t # ts)) = t # split_on c (join_with c ts)"
  by (cases ts) (simp_all add: split_on_append)

lemma split_on_join_prefix:
  "ts \<noteq> [] \<Longrightarrow> \<forall>t\<in>set ts. c \<notin> set t \<Longrightarrow>
   \<exists>R. split_on c (join_with c (ts @ rest)) = ts @ R"
proof (induction ts rule: list_nonempty_induct)
  case (single t)
  show ?case
  proof (cases rest)
    case Nil
    with single show ?thesis
      by (simp add: split_on_no_sep)
  next
    case (Cons u us)
    with single show ?thesis
      by (simp add: split_on_append)
  qed
next
  case (cons t ts)
  then obtain R where "split_on c (join_with c (ts @ rest)) = ts @ R"
    by auto
  moreover from cons have "c \<notin> set t" "ts @ rest \<noteq> []"
    by simp_all
  ultimately show ?case
    using split_on_join_cons [of c t "ts @ rest"] by simp
qed

lemma wire_tokens_split:
  assumes "CHR '' '' \<notin> set foundation" "CHR '' '' \<notin> set address" "wire_network_ok network"
    "four_types t"
  shows "\<exists>R. split_on CHR '' '' (join_with CHR '' ''
           (wire_tokens t network address port component foundation priority related tcp)) =
         [foundation, show_nat (unat component), network, show_nat (unat priority), address,
          show_nat (nat port), ''typ'', ice_CandidateType_String t] @ R"
proof -
  from assms have "\<forall>x\<in>set [foundation, show_nat (unat component), network,
      show_nat (unat priority), address, show_nat (nat port), ''typ'',
      ice_CandidateType_String t]. CHR '' '' \<notin> set x"
    by (auto simp: show_nat_no_space wire_network_ok_def four_types_def
        ice_CandidateType_String_def CandidateTypeHost_def CandidateTypeServerReflexive_def
        CandidateTypePeerReflexive_def CandidateTypeRelay_def)
  then show ?thesis
    unfolding wire_tokens_def
    by (intro split_on_join_prefix) simp_all
qed

lemma unat_component_bound: "unat (w :: 16 word) < 65536"
  using unsigned_less [of w, where ?'a = nat] by simp

lemma unat_priority_bound: "unat (w :: 32 word) < 4294967296"
  using unsigned_less [of w, where ?'a = nat] by simp

lemma Unmarshal_wire_candidate:
  assumes "CHR '' '' \<notin> set foundation" "CHR '' '' \<notin> set address" "wire_network_ok network"
    "four_types t" "0 \<le> port"
  shows "\<exists>related' tcp'.
     UnmarshalCandidate wire_env
       (ice_Marshal (wire_candidate t cid network address port component foundation priority
          related tcp)) =
     Inr (wire_candidate t [] network address port component foundation priority related' tcp')"
proof -
  from wire_tokens_split [OF assms(1-4)] obtain R where
    "split_on CHR '' '' (join_with CHR '' ''
           (wire_tokens t network address port component foundation priority related tcp)) =
         [foundation, show_nat (unat component), network, show_nat (unat priority), address,
          show_nat (nat port), ''typ'', ice_CandidateType_String t] @ R"
    by blast
  with assms(3-5) show ?thesis
    using unat_component_bound [of component] unat_priority_bound [of priority]
    by (auto simp: UnmarshalCandidate_def wire_candidate_def parse_nat_show wire_env_def
        four_types_def ice_CandidateType_String_def CandidateTypeHost_def
        CandidateTypeServerReflexive_def CandidateTypePeerReflexive_def CandidateTypeRelay_def)
qed

lemma toICE_wire_env:
  assumes "known_type (Typ c)" "udp_or_tcp (Protocol c)"
  shows "\<exists>related tcp.
     toICE wire_env c =
       Inr (wire_candidate (word_of_int (Typ c)) (statsID c)
              (wire_ICEProtocol_String (Protocol c)) (Address c) (uint (Port c)) (Component c)
              (Foundation c) (Priority c) related tcp)"
  using assms
  by (auto simp: toICE_def wire_env_def known_type_def udp_or_tcp_def wire_network_ok_def
      wire_ICEProtocol_String_def ICEProtocolUDP_def ICEProtocolTCP_def Let_def
      ICECandidateTypeHost_def ICECandidateTypeSrflx_def ICECandidateTypePrflx_def
      ICECandidateTypeRelay_def CandidateTypeHost_def CandidateTypeServerReflexive_def
      CandidateTypePeerReflexive_def CandidateTypeRelay_def)

lemma fromICE_wire_candidate:
  assumes "known_type t" "udp_or_tcp p"
  shows "snd (newICECandidateFromICE wire_env
           (wire_candidate (word_of_int t) cid (wire_ICEProtocol_String p) address (uint port)
              component foundation priority related tcp) sdpMid sdpMLineIndex) = None \<and>
         same_required_fields
           \<lparr>statsID = sid, Foundation = foundation, Priority = priority, Address = address,
            Protocol = p, Port = port, Typ = t, Component = component, RelatedAddress = ra,
            RelatedPort = rp, TCPType = tt, SDPMid = sm, SDPMLineIndex = si\<rparr>
           (fst (newICECandidateFromICE wire_env
             (wire_candidate (word_of_int t) cid (wire_ICEProtocol_String p) address (uint port)
                component foundation priority related tcp) sdpMid sdpMLineIndex))"
  using assms
  by (auto simp: newICECandidateFromICE_def convertTypeFromICE_known wire_candidate_def
      wire_env_def wire_NewICEProtocol_def wire_ICEProtocol_String_def udp_or_tcp_def
      ICEProtocolUDP_def ICEProtocolTCP_def same_required_fields_def Let_def
      split: option.splits)

lemma wire_roundtrip:
  assumes k: "known_type (Typ c)" and p: "udp_or_tcp (Protocol c)"
    and f: "CHR '' '' \<notin> set (Foundation c)" and a: "CHR '' '' \<notin> set (Address c)"
  shows "\<exists>w. toWireForm wire_env c = Inr w \<and>
           snd (fromWireForm wire_env w sdpMid sdpMLineIndex) = None \<and>
           same_required_fields c (fst (fromWireForm wire_env w sdpMid sdpMLineIndex))"
proof -
  let ?t = "word_of_int (Typ c) :: ice_CandidateType"
  let ?n = "wire_ICEProtocol_String (Protocol c)"
  from toICE_wire_env [OF k p] obtain related tcp where
    t: "toICE wire_env c = Inr (wire_candidate ?t (statsID c) ?n (Address c) (uint (Port c))
          (Component c) (Foundation c) (Priority c) related tcp)"
    by blast
  from k have ft: "four_types ?t"
    by (auto simp: known_type_def four_types_def ICECandidateTypeHost_def
        ICECandidateTypeSrflx_def ICECandidateTypePrflx_def ICECandidateTypeRelay_def
        CandidateTypeHost_def CandidateTypeServerReflexive_def CandidateTypePeerReflexive_def
        CandidateTypeRelay_def)
  from p have n: "wire_network_ok ?n"
    by (auto simp: udp_or_tcp_def wire_network_ok_def wire_ICEProtocol_String_def
        ICEProtocolUDP_def ICEProtocolTCP_def)
  from Unmarshal_wire_candidate [OF f a n ft, of "uint (Port c)" "statsID c" "Component c"
      "Priority c" related tcp]
  obtain related' tcp' where
    u: "UnmarshalCandidate wire_env
       (ice_Marshal (wire_candidate ?t (statsID c) ?n (Address c) (uint (Port c))
          (Component c) (Foundation c) (Priority c) related tcp)) =
     Inr (wire_candidate ?t [] ?n (Address c) (uint (Port c)) (Component c) (Foundation c)
            (Priority c) related' tcp')"
    by auto
  have c: "c = \<lparr>statsID = statsID c, Foundation = Foundation c, Priority = Priority c,
      Address = Address c, Protocol = Protocol c, Port = Port c, Typ = Typ c,
      Component = Component c, RelatedAddress = RelatedAddress c,
      RelatedPort = RelatedPort c, TCPType = TCPType c, SDPMid = SDPMid c,
      SDPMLineIndex = SDPMLineIndex c\<rparr>"
    by simp
  from fromICE_wire_candidate [OF k p, of "[]" "Address c" "Port c" "Component c"
      "Foundation c" "Priority c" related' tcp' sdpMid sdpMLineIndex "statsID c"
      "RelatedAddress c" "RelatedPort c" "TCPType c" "SDPMid c" "SDPMLineIndex c"]
  have r: "snd (newICECandidateFromICE wire_env
           (wire_candidate ?t [] ?n (Address c) (uint (Port c)) (Component c) (Foundation c)
              (Priority c) related' tcp') sdpMid sdpMLineIndex) = None \<and>
         same_required_fields c
           (fst (newICECandidateFromICE wire_env
             (wire_candidate ?t [] ?n (Address c) (uint (Port c)) (Component c) (Foundation c)
                (Priority c) related' tcp') sdpMid sdpMLineIndex))"
    using c by simp
  from t u r show ?thesis
    by (simp add: toWireForm_def fromWireForm_def)
qed

lemmas wire_defs =
  toWireForm_def fromWireForm_def UnmarshalCandidate_def wire_env_def wire_candidate_def
  wire_tokens_def wire_network_ok_def wire_NewICEProtocol_def wire_ICEProtocol_String_def
  wire_NewTCPType_def wire_TCPType_String_def ICEProtocolUDP_def ICEProtocolTCP_def
  toICE_def newICECandidateFromICE_def convertTypeFromICE_def ice_CandidateType_String_def
  parse_nat_def digit_value_def digit_char_def show_nat.simps
  ICECandidateTypeUnknown_def ICECandidateTypeHost_def ICECandidateTypeSrflx_def
  ICECandidateTypePrflx_def ICECandidateTypeRelay_def
  CandidateTypeUnspecified_def CandidateTypeHost_def CandidateTypeServerReflexive_def
  CandidateTypePeerReflexive_def CandidateTypeRelay_def

section \<open>Candidate round trip\<close>

text \<open>
  C4 as stated, for every candidate of the four types, fails. A host
  candidate whose foundation is "a b" has the wire form
  "a b 1 udp 2130706431 192.0.2.1 5000 typ host", which does not parse back:
  the fields are separated by spaces. The same holds for a space in the
  address. And a host candidate whose protocol is the zero value (neither udp
  nor tcp) has no wire form at all: its conversion fails.
\<close>

theorem candidate_roundtrip_needs_tokens:
  "Typ (example_host\<lparr>Foundation := ''a b''\<rparr>) = ICECandidateTypeHost \<and>
   toWireForm wire_env (example_host\<lparr>Foundation := ''a b''\<rparr>) =
     Inr ''a b 1 udp 2130706431 192.0.2.1 5000 typ host'' \<and>
   fromWireForm wire_env ''a b 1 udp 2130706431 192.0.2.1 5000 typ host'' ''0'' 0 =
     (ICECandidate_zero, Some (ExternalError ''could not parse candidate'')) \<and>
   toWireForm wire_env (example_host\<lparr>Address := ''192.0.2.1 x''\<rparr>) =
     Inr ''f1 1 udp 2130706431 192.0.2.1 x 5000 typ host'' \<and>
   fromWireForm wire_env ''f1 1 udp 2130706431 192.0.2.1 x 5000 typ host'' ''0'' 0 =
     (ICECandidate_zero, Some (ExternalError ''could not parse candidate'')) \<and>
   Typ (example_host\<lparr>Protocol := 0\<rparr>) = ICECandidateTypeHost \<and>
   toWireForm wire_env (example_host\<lparr>Protocol := 0\<rparr>) =
     Inl (ExternalError ''unable to determine networkType'')"
  by (simp add: wire_defs example_host_def ICECandidate_zero_def ErrUnknownType_Error_def
      Let_def)

lemma wire_roundtrip_and_types:
  "(t \<in> {ICECandidateTypeHost, ICECandidateTypeSrflx, ICECandidateTypePrflx,
         ICECandidateTypeRelay} \<longrightarrow>
      NewICECandidateType (ICECandidateType_String t) = (t, None) \<and>
      snd (MarshalText t) = None \<and>
      UnmarshalText t0 (fst (MarshalText t)) = (t, None)) \<and>
   (Typ c \<in> {ICECandidateTypeHost, ICECandidateTypeSrflx, ICECandidateTypePrflx,
         ICECandidateTypeRelay} \<and>
    (Protocol c = ICEProtocolUDP \<or> Protocol c = ICEProtocolTCP) \<and>
    CHR '' '' \<notin> set (Foundation c) \<and> CHR '' '' \<notin> set (Address c) \<longrightarrow>
      (\<exists>w. toWireForm wire_env c = Inr w \<and>
         snd (fromWireForm wire_env w sdpMid sdpMLineIndex) = None \<and>
         same_required_fields c (fst (fromWireForm wire_env w sdpMid sdpMLineIndex))))"
proof (rule conjI)
  show "t \<in> {ICECandidateTypeHost, ICECandidateTypeSrflx, ICECandidateTypePrflx,
         ICECandidateTypeRelay} \<longrightarrow>
      NewICECandidateType (ICECandidateType_String t) = (t, None) \<and>
      snd (MarshalText t) = None \<and>
      UnmarshalText t0 (fst (MarshalText t)) = (t, None)"
  proof
    assume "t \<in> {ICECandidateTypeHost, ICECandidateTypeSrflx, ICECandidateTypePrflx,
         ICECandidateTypeRelay}"
    then have "known_type t"
      by (auto simp: known_type_def)
    then have "NewICECandidateType (ICECandidateType_String t) = (t, None)"
      by (rule NewICECandidateType_String)
    then show "NewICECandidateType (ICECandidateType_String t) = (t, None) \<and>
      snd (MarshalText t) = None \<and>
      UnmarshalText t0 (fst (MarshalText t)) = (t, None)"
      by (simp add: MarshalText_def UnmarshalText_def)
  qed
next
  show "Typ c \<in> {ICECandidateTypeHost, ICECandidateTypeSrflx, ICECandidateTypePrflx,
         ICECandidateTypeRelay} \<and>
    (Protocol c = ICEProtocolUDP \<or> Protocol c = ICEProtocolTCP) \<and>
    CHR '' '' \<notin> set (Foundation c) \<and> CHR '' '' \<notin> set (Address c) \<longrightarrow>
      (\<exists>w. toWireForm wire_env c = Inr w \<and>
         snd (fromWireForm wire_env w sdpMid sdpMLineIndex) = None \<and>
         same_required_fields c (fst (fromWireForm wire_env w sdpMid sdpMLineIndex)))"
  proof
    assume a: "Typ c \<in> {ICECandidateTypeHost, ICECandidateTypeSrflx, ICECandidateTypePrflx,
         ICECandidateTypeRelay} \<and>
      (Protocol c = ICEProtocolUDP \<or> Protocol c = ICEProtocolTCP) \<and>
      CHR '' '' \<notin> set (Foundation c) \<and> CHR '' '' \<notin> set (Address c)"
    then have "known_type (Typ c)" "udp_or_tcp (Protocol c)"
      "CHR '' '' \<notin> set (Foundation c)" "CHR '' '' \<notin> set (Address c)"
      by (auto simp: known_type_def udp_or_tcp_def)
    then show "\<exists>w. toWireForm wire_env c = Inr w \<and>
         snd (fromWireForm wire_env w sdpMid sdpMLineIndex) = None \<and>
         same_required_fields c (fst (fromWireForm wire_env w sdpMid sdpMLineIndex))"
      by (rule wire_roundtrip)
  qed
qed

text \<open>
  C4, amended: round-tripping a candidate through its string form loses
  nothing on well-formed candidates. For every candidate of type host, srflx,
  prflx or relay whose protocol is udp or tcp and whose foundation and address
  contain no space, converting to wire form succeeds, and parsing the wire
  form back succeeds and yields the original value on the fields the grammar
  requires: foundation, component, protocol, priority, address, port and
  type. In particular, for each of the four known types \<open>t\<close>,
  \<open>NewICECandidateType\<close> of \<open>ICECandidateType_String t\<close> returns exactly \<open>t\<close> with no
  error, and so does \<open>UnmarshalText\<close> on the bytes \<open>MarshalText t\<close> returns.
\<close>

theorem candidate_roundtrip:
  "(t \<in> {ICECandidateTypeHost, ICECandidateTypeSrflx, ICECandidateTypePrflx,
         ICECandidateTypeRelay} \<longrightarrow>
      NewICECandidateType (ICECandidateType_String t) = (t, None) \<and>
      snd (MarshalText t) = None \<and>
      UnmarshalText t0 (fst (MarshalText t)) = (t, None)) \<and>
   (Typ c \<in> {ICECandidateTypeHost, ICECandidateTypeSrflx, ICECandidateTypePrflx,
         ICECandidateTypeRelay} \<and>
    (Protocol c = ICEProtocolUDP \<or> Protocol c = ICEProtocolTCP) \<and>
    CHR '' '' \<notin> set (Foundation c) \<and> CHR '' '' \<notin> set (Address c) \<longrightarrow>
      (\<exists>w. toWireForm wire_env c = Inr w \<and>
         snd (fromWireForm wire_env w sdpMid sdpMLineIndex) = None \<and>
         Foundation (fst (fromWireForm wire_env w sdpMid sdpMLineIndex)) = Foundation c \<and>
         Component (fst (fromWireForm wire_env w sdpMid sdpMLineIndex)) = Component c \<and>
         Protocol (fst (fromWireForm wire_env w sdpMid sdpMLineIndex)) = Protocol c \<and>
         Priority (fst (fromWireForm wire_env w sdpMid sdpMLineIndex)) = Priority c \<and>
         Address (fst (fromWireForm wire_env w sdpMid sdpMLineIndex)) = Address c \<and>
         Port (fst (fromWireForm wire_env w sdpMid sdpMLineIndex)) = Port c \<and>
         Typ (fst (fromWireForm wire_env w sdpMid sdpMLineIndex)) = Typ c))"
  by (rule wire_roundtrip_and_types [unfolded same_required_fields_def])

theorem candidate_roundtrip_witness:
  "NewICECandidateType (ICECandidateType_String ICECandidateTypePrflx) =
     (ICECandidateTypePrflx, None) \<and>
   UnmarshalText ICECandidateTypeUnknown (fst (MarshalText ICECandidateTypePrflx)) =
     (ICECandidateTypePrflx, None) \<and>
   toWireForm wire_env example_host =
     Inr ''f1 1 udp 2130706431 192.0.2.1 5000 typ host'' \<and>
   snd (fromWireForm wire_env
     ''f1 1 udp 2130706431 192.0.2.1 5000 typ host'' ''0'' 0) = None \<and>
   same_required_fields example_host
     (fst (fromWireForm wire_env
        ''f1 1 udp 2130706431 192.0.2.1 5000 typ host'' ''0'' 0)) \<and>
   toWireForm wire_env example_srflx =
     Inr ''f2 1 udp 1694498815 198.51.100.7 6000 typ srflx raddr 192.0.2.1 rport 5000'' \<and>
   snd (fromWireForm wire_env
     ''f2 1 udp 1694498815 198.51.100.7 6000 typ srflx raddr 192.0.2.1 rport 5000'' ''0'' 0) = None \<and>
   same_required_fields example_srflx
     (fst (fromWireForm wire_env
        ''f2 1 udp 1694498815 198.51.100.7 6000 typ srflx raddr 192.0.2.1 rport 5000'' ''0'' 0)) \<and>
   toWireForm wire_env (example_srflx\<lparr>Typ := ICECandidateTypePrflx\<rparr>) =
     Inr ''f2 1 udp 1694498815 198.51.100.7 6000 typ prflx raddr 192.0.2.1 rport 5000'' \<and>
   snd (fromWireForm wire_env
     ''f2 1 udp 1694498815 198.51.100.7 6000 typ prflx raddr 192.0.2.1 rport 5000'' ''0'' 0) = None \<and>
   same_required_fields (example_srflx\<lparr>Typ := ICECandidateTypePrflx\<rparr>)
     (fst (fromWireForm wire_env
        ''f2 1 udp 1694498815 198.51.100.7 6000 typ prflx raddr 192.0.2.1 rport 5000'' ''0'' 0)) \<and>
   toWireForm wire_env (example_srflx\<lparr>Typ := ICECandidateTypeRelay, Protocol := ICEProtocolTCP\<rparr>) =
     Inr ''f2 1 tcp 1694498815 198.51.100.7 6000 typ relay raddr 192.0.2.1 rport 5000'' \<and>
   snd (fromWireForm wire_env
     ''f2 1 tcp 1694498815 198.51.100.7 6000 typ relay raddr 192.0.2.1 rport 5000'' ''0'' 0) = None \<and>
   same_required_fields (example_srflx\<lparr>Typ := ICECandidateTypeRelay, Protocol := ICEProtocolTCP\<rparr>)
     (fst (fromWireForm wire_env
        ''f2 1 tcp 1694498815 198.51.100.7 6000 typ relay raddr 192.0.2.1 rport 5000'' ''0'' 0))"
proof -
  have m: "ICECandidateTypePrflx \<in>
     {ICECandidateTypeHost, ICECandidateTypeSrflx, ICECandidateTypePrflx, ICECandidateTypeRelay}"
    by simp
  from candidate_roundtrip [of ICECandidateTypePrflx ICECandidateTypeUnknown] m
  have ty: "NewICECandidateType (ICECandidateType_String ICECandidateTypePrflx) =
     (ICECandidateTypePrflx, None)"
    "UnmarshalText ICECandidateTypeUnknown (fst (MarshalText ICECandidateTypePrflx)) =
     (ICECandidateTypePrflx, None)"
    by blast+
  have h1: "toWireForm wire_env example_host =
     Inr ''f1 1 udp 2130706431 192.0.2.1 5000 typ host''"
    by (simp add: wire_defs example_host_def example_srflx_def Let_def)
  have h2: "Typ example_host \<in> {ICECandidateTypeHost, ICECandidateTypeSrflx,
      ICECandidateTypePrflx, ICECandidateTypeRelay} \<and>
    (Protocol example_host = ICEProtocolUDP \<or> Protocol example_host = ICEProtocolTCP) \<and>
    CHR '' '' \<notin> set (Foundation example_host) \<and> CHR '' '' \<notin> set (Address example_host)"
    by (simp add: example_host_def example_srflx_def ICEProtocolUDP_def ICEProtocolTCP_def)
  from candidate_roundtrip [folded same_required_fields_def,
      of ICECandidateTypePrflx ICECandidateTypeUnknown
      "example_host" "''0''" 0] h2
  obtain wh where "toWireForm wire_env example_host = Inr wh"
    "snd (fromWireForm wire_env wh ''0'' 0) = None"
    "same_required_fields example_host (fst (fromWireForm wire_env wh ''0'' 0))"
    by blast
  with h1 have h3: "snd (fromWireForm wire_env
     ''f1 1 udp 2130706431 192.0.2.1 5000 typ host'' ''0'' 0) = None"
    "same_required_fields example_host
     (fst (fromWireForm wire_env
        ''f1 1 udp 2130706431 192.0.2.1 5000 typ host'' ''0'' 0))"
    by simp_all
  have s1: "toWireForm wire_env example_srflx =
     Inr ''f2 1 udp 1694498815 198.51.100.7 6000 typ srflx raddr 192.0.2.1 rport 5000''"
    by (simp add: wire_defs example_host_def example_srflx_def Let_def)
  have s2: "Typ example_srflx \<in> {ICECandidateTypeHost, ICECandidateTypeSrflx,
      ICECandidateTypePrflx, ICECandidateTypeRelay} \<and>
    (Protocol example_srflx = ICEProtocolUDP \<or> Protocol example_srflx = ICEProtocolTCP) \<and>
    CHR '' '' \<notin> set (Foundation example_srflx) \<and> CHR '' '' \<notin> set (Address example_srflx)"
    by (simp add: example_host_def example_srflx_def ICEProtocolUDP_def ICEProtocolTCP_def)
  from candidate_roundtrip [folded same_required_fields_def,
      of ICECandidateTypePrflx ICECandidateTypeUnknown
      "example_srflx" "''0''" 0] s2
  obtain ws where "toWireForm wire_env example_srflx = Inr ws"
    "snd (fromWireForm wire_env ws ''0'' 0) = None"
    "same_required_fields example_srflx (fst (fromWireForm wire_env ws ''0'' 0))"
    by blast
  with s1 have s3: "snd (fromWireForm wire_env
     ''f2 1 udp 1694498815 198.51.100.7 6000 typ srflx raddr 192.0.2.1 rport 5000'' ''0'' 0) = None"
    "same_required_fields example_srflx
     (fst (fromWireForm wire_env
        ''f2 1 udp 1694498815 198.51.100.7 6000 typ srflx raddr 192.0.2.1 rport 5000'' ''0'' 0))"
    by simp_all
  have p1: "toWireForm wire_env (example_srflx\<lparr>Typ := ICECandidateTypePrflx\<rparr>) =
     Inr ''f2 1 udp 1694498815 198.51.100.7 6000 typ prflx raddr 192.0.2.1 rport 5000''"
    by (simp add: wire_defs example_host_def example_srflx_def Let_def)
  have p2: "Typ (example_srflx\<lparr>Typ := ICECandidateTypePrflx\<rparr>) \<in> {ICECandidateTypeHost, ICECandidateTypeSrflx,
      ICECandidateTypePrflx, ICECandidateTypeRelay} \<and>
    (Protocol (example_srflx\<lparr>Typ := ICECandidateTypePrflx\<rparr>) = ICEProtocolUDP \<or> Protocol (example_srflx\<lparr>Typ := ICECandidateTypePrflx\<rparr>) = ICEProtocolTCP) \<and>
    CHR '' '' \<notin> set (Foundation (example_srflx\<lparr>Typ := ICECandidateTypePrflx\<rparr>)) \<and> CHR '' '' \<notin> set (Address (example_srflx\<lparr>Typ := ICECandidateTypePrflx\<rparr>))"
    by (simp add: example_host_def example_srflx_def ICEProtocolUDP_def ICEProtocolTCP_def)
  from candidate_roundtrip [folded same_required_fields_def,
      of ICECandidateTypePrflx ICECandidateTypeUnknown
      "example_srflx\<lparr>Typ := ICECandidateTypePrflx\<rparr>" "''0''" 0] p2
  obtain wp where "toWireForm wire_env (example_srflx\<lparr>Typ := ICECandidateTypePrflx\<rparr>) = Inr wp"
    "snd (fromWireForm wire_env wp ''0'' 0) = None"
    "same_required_fields (example_srflx\<lparr>Typ := ICECandidateTypePrflx\<rparr>) (fst (fromWireForm wire_env wp ''0'' 0))"
    by blast
  with p1 have p3: "snd (fromWireForm wire_env
     ''f2 1 udp 1694498815 198.51.100.7 6000 typ prflx raddr 192.0.2.1 rport 5000'' ''0'' 0) = None"
    "same_required_fields (example_srflx\<lparr>Typ := ICECandidateTypePrflx\<rparr>)
     (fst (fromWireForm wire_env
        ''f2 1 udp 1694498815 198.51.100.7 6000 typ prflx raddr 192.0.2.1 rport 5000'' ''0'' 0))"
    by simp_all
  have r1: "toWireForm wire_env (example_srflx\<lparr>Typ := ICECandidateTypeRelay, Protocol := ICEProtocolTCP\<rparr>) =
     Inr ''f2 1 tcp 1694498815 198.51.100.7 6000 typ relay raddr 192.0.2.1 rport 5000''"
    by (simp add: wire_defs example_host_def example_srflx_def Let_def)
  have r2: "Typ (example_srflx\<lparr>Typ := ICECandidateTypeRelay, Protocol := ICEProtocolTCP\<rparr>) \<in> {ICECandidateTypeHost, ICECandidateTypeSrflx,
      ICECandidateTypePrflx, ICECandidateTypeRelay} \<and>
    (Protocol (example_srflx\<lparr>Typ := ICECandidateTypeRelay, Protocol := ICEProtocolTCP\<rparr>) = ICEProtocolUDP \<or> Protocol (example_srflx\<lparr>Typ := ICECandidateTypeRelay, Protocol := ICEProtocolTCP\<rparr>) = ICEProtocolTCP) \<and>
    CHR '' '' \<notin> set (Foundation (example_srflx\<lparr>Typ := ICECandidateTypeRelay, Protocol := ICEProtocolTCP\<rparr>)) \<and> CHR '' '' \<notin> set (Address (example_srflx\<lparr>Typ := ICECandidateTypeRelay, Protocol := ICEProtocolTCP\<rparr>))"
    by (simp add: example_host_def example_srflx_def ICEProtocolUDP_def ICEProtocolTCP_def)
  from candidate_roundtrip [folded same_required_fields_def,
      of ICECandidateTypePrflx ICECandidateTypeUnknown
      "example_srflx\<lparr>Typ := ICECandidateTypeRelay, Protocol := ICEProtocolTCP\<rparr>" "''0''" 0] r2
  obtain wr where "toWireForm wire_env (example_srflx\<lparr>Typ := ICECandidateTypeRelay, Protocol := ICEProtocolTCP\<rparr>) = Inr wr"
    "snd (fromWireForm wire_env wr ''0'' 0) = None"
    "same_required_fields (example_srflx\<lparr>Typ := ICECandidateTypeRelay, Protocol := ICEProtocolTCP\<rparr>) (fst (fromWireForm wire_env wr ''0'' 0))"
    by blast
  with r1 have r3: "snd (fromWireForm wire_env
     ''f2 1 tcp 1694498815 198.51.100.7 6000 typ relay raddr 192.0.2.1 rport 5000'' ''0'' 0) = None"
    "same_required_fields (example_srflx\<lparr>Typ := ICECandidateTypeRelay, Protocol := ICEProtocolTCP\<rparr>)
     (fst (fromWireForm wire_env
        ''f2 1 tcp 1694498815 198.51.100.7 6000 typ relay raddr 192.0.2.1 rport 5000'' ''0'' 0))"
    by simp_all
  from ty h1 h3 s1 s3 p1 p3 r1 r3 show ?thesis
    by simp
qed

end
